theory Spec2Isabelle
  imports Main "HOL-Library.Word" "HOL-Library.Sublist" "HOL-Library.AList"
begin

section \<open>Handles and values\<close>

text \<open>
  The collaborators of the facade (pool, connections, transactions, the scanning API)
  are objects of pgx and scany. They are handles here; what they answer is given by a
  \<open>world\<close> record further down.
\<close>

type_synonym pool = nat
type_synonym conn = nat
type_synonym tx = nat
type_synonym scanAPI = nat
type_synonym dest = nat

text \<open>\<open>pgx.TxIsoLevel\<close> is a string type; \<open>time.Duration\<close> is an \<open>int64\<close> of nanoseconds.\<close>

type_synonym TxIsoLevel = string
type_synonym Duration = "64 word"

definition Second :: Duration where
  "Second = 1000000000"

text \<open>
  Go's \<open>any\<close>, as far as the facade meets it: the nil interface, a \<open>pgx.Tx\<close>, or a
  value of some other dynamic type.
\<close>

datatype any = AnyNil | AnyTx tx | AnyString string | AnyInt int

section \<open>The execution context (src/unnamed/part\_000 and package context)\<close>

text \<open>
  \<open>txCtxKey\<close> is the unexported pointer \<open>&ctxKey{}\<close>; every other key a caller may use
  is a \<open>UserKey\<close>.
\<close>

datatype key = txCtxKey | UserKey string

text \<open>
  A \<open>context.Context\<close> is an immutable chain of nodes, each pointing to its parent:
  \<open>context.WithValue\<close> and \<open>context.WithTimeout\<close> allocate a new node and leave the
  parent as it is. Two calls of \<open>WithTimeout\<close> on one parent give two distinct nodes
  (cancelling one does not cancel the other), so a timeout node carries the number of
  its allocation.
\<close>

datatype Context =
    Background
  | WithValue Context key any
  | WithTimeout Context Duration nat

text \<open>\<open>ctx.Value(key)\<close>: the value of the nearest node with that key, nil when there is none.\<close>

fun Value :: "Context \<Rightarrow> key \<Rightarrow> any" where
  "Value Background k = AnyNil"
| "Value (WithValue parent k' v) k = (if k' = k then v else Value parent k)"
| "Value (WithTimeout parent d n) k = Value parent k"

text \<open>
  A \<open>pgx.Tx\<close> interface value is \<open>tx option\<close>, \<open>None\<close> being the nil interface.
  Converting a nil \<open>pgx.Tx\<close> to \<open>any\<close> gives the nil \<open>any\<close>.
\<close>

definition contextWithTx :: "Context \<Rightarrow> tx option \<Rightarrow> Context" where
  "contextWithTx ctx tx =
     WithValue ctx txCtxKey (case tx of None \<Rightarrow> AnyNil | Some t \<Rightarrow> AnyTx t)"

text \<open>\<open>v, _ := ctx.Value(txCtxKey).(pgx.Tx)\<close>: a failed assertion leaves \<open>v\<close> nil.\<close>

definition txFromContext :: "Context \<Rightarrow> tx option" where
  "txFromContext ctx =
     (case Value ctx txCtxKey of AnyTx t \<Rightarrow> Some t | _ \<Rightarrow> None)"

text \<open>
  Deriving a context without touching the transaction key: any number of
  \<open>WithTimeout\<close> and \<open>WithValue\<close> (under a caller's key) steps.
\<close>

datatype step = StepTimeout Duration nat | StepValue string any

fun derive :: "Context \<Rightarrow> step list \<Rightarrow> Context" where
  "derive ctx [] = ctx"
| "derive ctx (StepTimeout d n # steps) = derive (WithTimeout ctx d n) steps"
| "derive ctx (StepValue k v # steps) = derive (WithValue ctx (UserKey k) v) steps"

text \<open>A chain in which no node is under the transaction key.\<close>

fun attachment_free :: "Context \<Rightarrow> bool" where
  "attachment_free Background = True"
| "attachment_free (WithValue parent k v) = (k \<noteq> txCtxKey \<and> attachment_free parent)"
| "attachment_free (WithTimeout parent d n) = attachment_free parent"

section \<open>Errors\<close>

text \<open>
  A Go \<open>error\<close> is a message and, for the errors built by \<open>fmt.Errorf\<close> with \<open>%w\<close>,
  the error it wraps. \<open>ErrorString\<close> is any error without a wrapped cause
  (\<open>errors.New\<close>, \<open>fmt.Errorf\<close> without \<open>%w\<close>, the errors of the collaborators).
\<close>

text \<open>
  Modelled from the spec: the declaration of \<open>ErrRecordsNotFound\<close> is in no file under
  src/. The spec calls it a distinguished outcome, distinct from all other failures, so it
  is a constructor of its own; the text it prints is not given anywhere, and nothing
  below depends on the one chosen in \<open>Error\<close>.
\<close>

datatype error =
    ErrRecordsNotFound
  | ErrorString string
  | WrapError string error

text \<open>\<open>err.Error()\<close>.\<close>

fun Error :: "error \<Rightarrow> string" where
  "Error ErrRecordsNotFound = ''records not found''"
| "Error (ErrorString msg) = msg"
| "Error (WrapError msg err) = msg"

text \<open>\<open>errors.Unwrap(err)\<close> and \<open>errors.Is(err, target)\<close>.\<close>

fun Unwrap :: "error \<Rightarrow> error option" where
  "Unwrap (WrapError msg err) = Some err"
| "Unwrap err = None"

fun errors_Is :: "error \<Rightarrow> error \<Rightarrow> bool" where
  "errors_Is (WrapError msg err) target = (WrapError msg err = target \<or> errors_Is err target)"
| "errors_Is err target = (err = target)"

text \<open>\<open>fmt.Errorf("<prefix>: %w", err)\<close>.\<close>

definition Errorf_w :: "string \<Rightarrow> error \<Rightarrow> error" where
  "Errorf_w pfx err = WrapError (pfx @ '': '' @ Error err) err"

section \<open>Collaborators, events and state\<close>

text \<open>The row source handed to scany or called directly: the pool or a transaction.\<close>

datatype querier = OnPool pool | OnTx tx

text \<open>
  \<open>pgxpool.Config\<close>: the connection string it was parsed from and whether a
  \<open>BeforeAcquire\<close> hook that pings the connection is installed.
\<close>

record pgxConfig =
  ConnString :: string
  BeforeAcquire :: bool

text \<open>Every call the facade makes on a collaborator is an event of the trace.\<close>

datatype event =
    EvNewWithConfig Context pgxConfig
  | EvPing pool Context
  | EvClose pool
  | EvAcquire pool Context
  | EvRelease conn
  | EvBeginTx conn Context TxIsoLevel
  | EvCommit tx Context
  | EvRollback tx Context
  | EvScanGet scanAPI Context querier dest string "any list"
  | EvScanSelect scanAPI Context querier dest string "any list"
  | EvExec querier Context string "any list"
  | EvQuery querier Context string "any list"
  | EvQueryRow querier Context string "any list"
  | EvCancel Context

record state =
  trace :: "event list"
  allocated :: nat

text \<open>
  A cursor (\<open>pgx.Rows\<close>) and a row accessor (\<open>pgx.Row\<close>) are lazy: they remember the
  call that made them, with its context.
\<close>

datatype Rows = Rows querier Context string "any list"
datatype Row = Row querier Context string "any list"

type_synonym CommandTag = string

text \<open>
  What the collaborators answer. Every answer may depend on the whole history (the
  state at the call) and on the arguments; the facade is verified for every world.
\<close>

record world =
  NotFound :: "error \<Rightarrow> bool"
  Duration_String :: "Duration \<Rightarrow> string"
  ParseConfig_res :: "string \<Rightarrow> error option"
  NewWithConfig_res :: "state \<Rightarrow> Context \<Rightarrow> pgxConfig \<Rightarrow> error + pool"
  NewDBScanAPI_res :: "bool \<Rightarrow> error + nat"
  NewAPI_res :: "nat \<Rightarrow> error + scanAPI"
  Ping_res :: "state \<Rightarrow> pool \<Rightarrow> Context \<Rightarrow> error option"
  Acquire_res :: "state \<Rightarrow> pool \<Rightarrow> Context \<Rightarrow> error + conn"
  BeginTx_res :: "state \<Rightarrow> conn \<Rightarrow> Context \<Rightarrow> TxIsoLevel \<Rightarrow> error + tx"
  Commit_res :: "state \<Rightarrow> tx \<Rightarrow> Context \<Rightarrow> error option"
  Rollback_res :: "state \<Rightarrow> tx \<Rightarrow> Context \<Rightarrow> error option"
  ScanGet_res ::
    "state \<Rightarrow> scanAPI \<Rightarrow> Context \<Rightarrow> querier \<Rightarrow> dest \<Rightarrow> string \<Rightarrow> any list \<Rightarrow> error option"
  ScanSelect_res ::
    "state \<Rightarrow> scanAPI \<Rightarrow> Context \<Rightarrow> querier \<Rightarrow> dest \<Rightarrow> string \<Rightarrow> any list \<Rightarrow> error option"
  Exec_res ::
    "state \<Rightarrow> querier \<Rightarrow> Context \<Rightarrow> string \<Rightarrow> any list \<Rightarrow> CommandTag \<times> error option"
  Query_res :: "state \<Rightarrow> querier \<Rightarrow> Context \<Rightarrow> string \<Rightarrow> any list \<Rightarrow> error option"
  Fetch_res :: "state \<Rightarrow> querier \<Rightarrow> string \<Rightarrow> any list \<Rightarrow> error + any list"

definition emit :: "event \<Rightarrow> state \<Rightarrow> state" where
  "emit ev s = s\<lparr>trace := trace s @ [ev]\<rparr>"

text \<open>
  \<open>context.WithTimeout(parent, d)\<close> returns a new node and its cancel function;
  \<open>cancel ctx\<close> is that function. The expiry of the deadline is real time and is not
  modelled: \<open>Done\<close> holds of a context once it or an ancestor has been cancelled, and a
  context that is \<open>Done\<close> here is done in Go.
\<close>

definition context_WithTimeout :: "Context \<Rightarrow> Duration \<Rightarrow> state \<Rightarrow> Context \<times> state" where
  "context_WithTimeout parent d s =
     (WithTimeout parent d (allocated s), s\<lparr>allocated := Suc (allocated s)\<rparr>)"

definition cancel :: "Context \<Rightarrow> state \<Rightarrow> state" where
  "cancel ctx s = emit (EvCancel ctx) s"

fun Done :: "event list \<Rightarrow> Context \<Rightarrow> bool" where
  "Done tr Background = False"
| "Done tr (WithValue parent k v) = Done tr parent"
| "Done tr (WithTimeout parent d n) =
     (EvCancel (WithTimeout parent d n) \<in> set tr \<or> Done tr parent)"

text \<open>A context below a \<open>WithTimeout\<close> node carries a deadline.\<close>

fun time_bounded :: "Context \<Rightarrow> bool" where
  "time_bounded Background = False"
| "time_bounded (WithValue parent k v) = time_bounded parent"
| "time_bounded (WithTimeout parent d n) = True"

subsection \<open>The calls on the collaborators\<close>

definition pool_Acquire :: "world \<Rightarrow> pool \<Rightarrow> Context \<Rightarrow> state \<Rightarrow> (error + conn) \<times> state" where
  "pool_Acquire w p ctx s = (Acquire_res w s p ctx, emit (EvAcquire p ctx) s)"

definition conn_Release :: "conn \<Rightarrow> state \<Rightarrow> state" where
  "conn_Release cn s = emit (EvRelease cn) s"

definition conn_BeginTx ::
  "world \<Rightarrow> conn \<Rightarrow> Context \<Rightarrow> TxIsoLevel \<Rightarrow> state \<Rightarrow> (error + tx) \<times> state" where
  "conn_BeginTx w cn ctx isoLevel s =
     (BeginTx_res w s cn ctx isoLevel, emit (EvBeginTx cn ctx isoLevel) s)"

definition tx_Commit :: "world \<Rightarrow> tx \<Rightarrow> Context \<Rightarrow> state \<Rightarrow> error option \<times> state" where
  "tx_Commit w t ctx s = (Commit_res w s t ctx, emit (EvCommit t ctx) s)"

definition tx_Rollback :: "world \<Rightarrow> tx \<Rightarrow> Context \<Rightarrow> state \<Rightarrow> error option \<times> state" where
  "tx_Rollback w t ctx s = (Rollback_res w s t ctx, emit (EvRollback t ctx) s)"

definition pool_Ping :: "world \<Rightarrow> pool \<Rightarrow> Context \<Rightarrow> state \<Rightarrow> error option \<times> state" where
  "pool_Ping w p ctx s = (Ping_res w s p ctx, emit (EvPing p ctx) s)"

definition pool_Close :: "pool \<Rightarrow> state \<Rightarrow> state" where
  "pool_Close p s = emit (EvClose p) s"

definition scanApi_Get ::
  "world \<Rightarrow> scanAPI \<Rightarrow> Context \<Rightarrow> querier \<Rightarrow> dest \<Rightarrow> string \<Rightarrow> any list \<Rightarrow> state
   \<Rightarrow> error option \<times> state" where
  "scanApi_Get w api ctx q dst sql args s =
     (ScanGet_res w s api ctx q dst sql args, emit (EvScanGet api ctx q dst sql args) s)"

definition scanApi_Select ::
  "world \<Rightarrow> scanAPI \<Rightarrow> Context \<Rightarrow> querier \<Rightarrow> dest \<Rightarrow> string \<Rightarrow> any list \<Rightarrow> state
   \<Rightarrow> error option \<times> state" where
  "scanApi_Select w api ctx q dst sql args s =
     (ScanSelect_res w s api ctx q dst sql args, emit (EvScanSelect api ctx q dst sql args) s)"

definition querier_Exec ::
  "world \<Rightarrow> querier \<Rightarrow> Context \<Rightarrow> string \<Rightarrow> any list \<Rightarrow> state
   \<Rightarrow> (CommandTag \<times> error option) \<times> state" where
  "querier_Exec w q ctx sql args s = (Exec_res w s q ctx sql args, emit (EvExec q ctx sql args) s)"

definition querier_Query ::
  "world \<Rightarrow> querier \<Rightarrow> Context \<Rightarrow> string \<Rightarrow> any list \<Rightarrow> state
   \<Rightarrow> (Rows \<times> error option) \<times> state" where
  "querier_Query w q ctx sql args s =
     ((Rows q ctx sql args, Query_res w s q ctx sql args), emit (EvQuery q ctx sql args) s)"

definition querier_QueryRow ::
  "querier \<Rightarrow> Context \<Rightarrow> string \<Rightarrow> any list \<Rightarrow> state \<Rightarrow> Row \<times> state" where
  "querier_QueryRow q ctx sql args s = (Row q ctx sql args, emit (EvQueryRow q ctx sql args) s)"

definition pgxpool_NewWithConfig ::
  "world \<Rightarrow> Context \<Rightarrow> pgxConfig \<Rightarrow> state \<Rightarrow> (error + pool) \<times> state" where
  "pgxpool_NewWithConfig w ctx cfg s = (NewWithConfig_res w s ctx cfg, emit (EvNewWithConfig ctx cfg) s)"

section \<open>Configuration (src/config.go)\<close>

record Config =
  Host :: string
  Port :: string
  Name :: string
  User :: string
  Password :: string
  SSLMode :: string
  QueryTimeout :: Duration
  PoolMinConnections :: string
  PoolMaxConnections :: string
  PoolMaxConnLife :: Duration
  PoolMaxConnIdle :: Duration
  EnableBeforeAcquirePing :: bool
  AllowUnknownColumns :: bool

definition Valid :: "Config \<Rightarrow> error option" where
  "Valid c =
     (if Host c = [] then Some (ErrorString '''host' was not set'')
      else if Port c = [] then Some (ErrorString '''port' was not set'')
      else if Name c = [] then Some (ErrorString '''name' was not set'')
      else if User c = [] then Some (ErrorString '''user' was not set'')
      else if Password c = [] then Some (ErrorString '''password' was not set'')
      else None)"

text \<open>
  A Go \<open>map[string]string\<close> is an association list with \<open>AList.update\<close> as the
  assignment \<open>m[key] = val\<close>. Go leaves the order of \<open>range\<close> over a map open; \<open>dbDSN\<close>
  here takes the order of the list.
\<close>

definition setIfNotEmpty ::
  "(string \<times> string) list \<Rightarrow> string \<Rightarrow> string \<Rightarrow> (string \<times> string) list" where
  "setIfNotEmpty m k val = (if val \<noteq> [] then AList.update k val m else m)"

definition setIfPositiveDuration ::
  "world \<Rightarrow> (string \<times> string) list \<Rightarrow> string \<Rightarrow> Duration \<Rightarrow> (string \<times> string) list" where
  "setIfPositiveDuration w m k d =
     (if 0 <s d then AList.update k (Duration_String w d) m else m)"

definition dbValues :: "world \<Rightarrow> Config \<Rightarrow> (string \<times> string) list" where
  "dbValues w cfg =
     (let p = [];
          p = setIfNotEmpty p ''dbname'' (Name cfg);
          p = setIfNotEmpty p ''user'' (User cfg);
          p = setIfNotEmpty p ''host'' (Host cfg);
          p = setIfNotEmpty p ''port'' (Port cfg);
          p = setIfNotEmpty p ''sslmode'' (SSLMode cfg);
          p = setIfNotEmpty p ''password'' (Password cfg);
          p = setIfNotEmpty p ''pool_min_conns'' (PoolMinConnections cfg);
          p = setIfNotEmpty p ''pool_max_conns'' (PoolMaxConnections cfg);
          p = setIfPositiveDuration w p ''pool_max_conn_lifetime'' (PoolMaxConnLife cfg);
          p = setIfPositiveDuration w p ''pool_max_conn_idle_time'' (PoolMaxConnIdle cfg)
      in p)"

text \<open>\<open>strings.Join(elems, sep)\<close>.\<close>

fun Join :: "string list \<Rightarrow> string \<Rightarrow> string" where
  "Join [] sep = []"
| "Join [x] sep = x"
| "Join (x # y # ys) sep = x @ sep @ Join (y # ys) sep"

definition dbDSN :: "world \<Rightarrow> Config \<Rightarrow> string" where
  "dbDSN w cfg = Join (map (\<lambda>(k, v). k @ ''='' @ v) (dbValues w cfg)) '' ''"

section \<open>The client (src/client.go)\<close>

record client =
  dbPool :: pool
  queryTimeout :: Duration
  scanApi :: scanAPI

definition New :: "world \<Rightarrow> Context \<Rightarrow> Config \<Rightarrow> state \<Rightarrow> (error + client) \<times> state" where
  "New w ctx config s =
     (let dsnPool = dbDSN w config in
      (case ParseConfig_res w dsnPool of
         Some err \<Rightarrow> (Inl (Errorf_w ''failed to parse connection string'' err), s)
       | None \<Rightarrow>
          (let parsed = \<lparr>ConnString = dsnPool, BeforeAcquire = False\<rparr>;
               pgxCfg = (if EnableBeforeAcquirePing config
                         then parsed\<lparr>BeforeAcquire := True\<rparr> else parsed)
           in
           (case pgxpool_NewWithConfig w ctx pgxCfg s of
              (Inl err, s1) \<Rightarrow> (Inl (Errorf_w ''failed to create connection pool'' err), s1)
            | (Inr pl, s1) \<Rightarrow>
               (case pool_Ping w pl ctx s1 of
                  (Some err, s2) \<Rightarrow> (Inl (Errorf_w ''ping to database connection'' err), s2)
                | (None, s2) \<Rightarrow>
                   (let timeout = (if 0 <s QueryTimeout config
                                   then QueryTimeout config else Second * 5)
                    in
                    (case NewDBScanAPI_res w (AllowUnknownColumns config) of
                       Inl err \<Rightarrow> (Inl (Errorf_w ''pgxscan.NewDBScanAPI'' err), s2)
                     | Inr dbScan \<Rightarrow>
                        (case NewAPI_res w dbScan of
                           Inl err \<Rightarrow> (Inl (Errorf_w ''pgxscan.NewAPI'' err), s2)
                         | Inr pgxscanApi \<Rightarrow>
                            (Inr \<lparr>dbPool = pl, queryTimeout = timeout, scanApi = pgxscanApi\<rparr>,
                             s2)))))))))"

subsection \<open>The dual-mode executor\<close>

definition getInTx ::
  "world \<Rightarrow> client \<Rightarrow> Context \<Rightarrow> dest \<Rightarrow> string \<Rightarrow> any list \<Rightarrow> state \<Rightarrow> error option \<times> state" where
  "getInTx w c ctx dst sql args s =
     (case txFromContext ctx of
        Some t \<Rightarrow> scanApi_Get w (scanApi c) ctx (OnTx t) dst sql args s
      | None \<Rightarrow> scanApi_Get w (scanApi c) ctx (OnPool (dbPool c)) dst sql args s)"

definition selectInTx ::
  "world \<Rightarrow> client \<Rightarrow> Context \<Rightarrow> dest \<Rightarrow> string \<Rightarrow> any list \<Rightarrow> state \<Rightarrow> error option \<times> state" where
  "selectInTx w c ctx dst sql args s =
     (case txFromContext ctx of
        Some t \<Rightarrow> scanApi_Select w (scanApi c) ctx (OnTx t) dst sql args s
      | None \<Rightarrow> scanApi_Select w (scanApi c) ctx (OnPool (dbPool c)) dst sql args s)"

definition execInTx ::
  "world \<Rightarrow> client \<Rightarrow> Context \<Rightarrow> string \<Rightarrow> any list \<Rightarrow> state
   \<Rightarrow> (CommandTag \<times> error option) \<times> state" where
  "execInTx w c ctx sql args s =
     (case txFromContext ctx of
        Some t \<Rightarrow> querier_Exec w (OnTx t) ctx sql args s
      | None \<Rightarrow> querier_Exec w (OnPool (dbPool c)) ctx sql args s)"

definition queryInTx ::
  "world \<Rightarrow> client \<Rightarrow> Context \<Rightarrow> string \<Rightarrow> any list \<Rightarrow> state
   \<Rightarrow> (Rows \<times> error option) \<times> state" where
  "queryInTx w c ctx sql args s =
     (case txFromContext ctx of
        Some t \<Rightarrow> querier_Query w (OnTx t) ctx sql args s
      | None \<Rightarrow> querier_Query w (OnPool (dbPool c)) ctx sql args s)"

definition queryRowsInTx ::
  "client \<Rightarrow> Context \<Rightarrow> string \<Rightarrow> any list \<Rightarrow> state \<Rightarrow> Row \<times> state" where
  "queryRowsInTx c ctx sql args s =
     (case txFromContext ctx of
        Some t \<Rightarrow> querier_QueryRow (OnTx t) ctx sql args s
      | None \<Rightarrow> querier_QueryRow (OnPool (dbPool c)) ctx sql args s)"

subsection \<open>The public operations\<close>

text \<open>\<open>defer cancel()\<close> runs when the method returns, after its result is fixed.\<close>

definition Get ::
  "world \<Rightarrow> client \<Rightarrow> Context \<Rightarrow> dest \<Rightarrow> string \<Rightarrow> any list \<Rightarrow> state \<Rightarrow> error option \<times> state" where
  "Get w c ctx dst sql args s =
     (case context_WithTimeout ctx (queryTimeout c) s of
        (ctxWithTimeout, s1) \<Rightarrow>
          (case getInTx w c ctxWithTimeout dst sql args s1 of
             (Some err, s2) \<Rightarrow>
               (if NotFound w err then (Some ErrRecordsNotFound, cancel ctxWithTimeout s2)
                else (Some err, cancel ctxWithTimeout s2))
           | (None, s2) \<Rightarrow> (None, cancel ctxWithTimeout s2)))"

definition Select ::
  "world \<Rightarrow> client \<Rightarrow> Context \<Rightarrow> dest \<Rightarrow> string \<Rightarrow> any list \<Rightarrow> state \<Rightarrow> error option \<times> state" where
  "Select w c ctx dst sql args s =
     (case context_WithTimeout ctx (queryTimeout c) s of
        (ctxWithTimeout, s1) \<Rightarrow>
          (case selectInTx w c ctxWithTimeout dst sql args s1 of
             (Some err, s2) \<Rightarrow>
               (if NotFound w err then (Some ErrRecordsNotFound, cancel ctxWithTimeout s2)
                else (Some err, cancel ctxWithTimeout s2))
           | (None, s2) \<Rightarrow> (None, cancel ctxWithTimeout s2)))"

definition Exec ::
  "world \<Rightarrow> client \<Rightarrow> Context \<Rightarrow> string \<Rightarrow> any list \<Rightarrow> state
   \<Rightarrow> (CommandTag \<times> error option) \<times> state" where
  "Exec w c ctx sql args s =
     (case context_WithTimeout ctx (queryTimeout c) s of
        (ctxWithTimeout, s1) \<Rightarrow>
          (case execInTx w c ctxWithTimeout sql args s1 of
             (r, s2) \<Rightarrow> (r, cancel ctxWithTimeout s2)))"

definition Query ::
  "world \<Rightarrow> client \<Rightarrow> Context \<Rightarrow> string \<Rightarrow> any list \<Rightarrow> state
   \<Rightarrow> (Rows \<times> error option) \<times> state" where
  "Query w c ctx sql args s =
     (case context_WithTimeout ctx (queryTimeout c) s of
        (ctxWithTimeout, s1) \<Rightarrow>
          (case queryInTx w c ctxWithTimeout sql args s1 of
             (r, s2) \<Rightarrow> (r, cancel ctxWithTimeout s2)))"

definition QueryRow ::
  "client \<Rightarrow> Context \<Rightarrow> string \<Rightarrow> any list \<Rightarrow> state \<Rightarrow> Row \<times> state" where
  "QueryRow c ctx sql args s =
     (case context_WithTimeout ctx (queryTimeout c) s of
        (ctxWithTimeout, s1) \<Rightarrow>
          (case queryRowsInTx c ctxWithTimeout sql args s1 of
             (r, s2) \<Rightarrow> (r, cancel ctxWithTimeout s2)))"

text \<open>
  The unit of work \<open>f\<close> is any Go function of a context: it returns an error or nil and
  may do anything to the state on the way. \<open>defer conn.Release()\<close> runs on every
  return after the acquisition.
\<close>

definition InTx ::
  "world \<Rightarrow> client \<Rightarrow> Context \<Rightarrow> TxIsoLevel \<Rightarrow> (Context \<Rightarrow> state \<Rightarrow> error option \<times> state)
   \<Rightarrow> state \<Rightarrow> error option \<times> state" where
  "InTx w c ctx isoLevel f s =
     (case pool_Acquire w (dbPool c) ctx s of
        (Inl err, s1) \<Rightarrow> (Some (Errorf_w ''acquiring connection'' err), s1)
      | (Inr cn, s1) \<Rightarrow>
          (case conn_BeginTx w cn ctx isoLevel s1 of
             (Inl err, s2) \<Rightarrow> (Some (Errorf_w ''starting transaction'' err), conn_Release cn s2)
           | (Inr t, s2) \<Rightarrow>
               let ctxWithTx = contextWithTx ctx (Some t) in
               (case f ctxWithTx s2 of
                  (Some err, s3) \<Rightarrow>
                    (case tx_Rollback w t ctxWithTx s3 of
                       (Some err1, s4) \<Rightarrow>
                         (Some (WrapError (''rolling back transaction: '' @ Error err1
                                  @ '' (original error: '' @ Error err @ '')'') err),
                          conn_Release cn s4)
                     | (None, s4) \<Rightarrow> (Some err, conn_Release cn s4))
                | (None, s3) \<Rightarrow>
                    (case tx_Commit w t ctxWithTx s3 of
                       (Some err, s4) \<Rightarrow>
                         (Some (Errorf_w ''committing transaction'' err), conn_Release cn s4)
                     | (None, s4) \<Rightarrow> (None, conn_Release cn s4)))))"

definition Ping :: "world \<Rightarrow> client \<Rightarrow> Context \<Rightarrow> state \<Rightarrow> error option \<times> state" where
  "Ping w c ctx s = pool_Ping w (dbPool c) ctx s"

definition Close :: "client \<Rightarrow> state \<Rightarrow> state" where
  "Close c s = pool_Close (dbPool c) s"

section \<open>Reading what the facade did from the trace\<close>

text \<open>The number of commits, rollbacks and releases in a trace.\<close>

fun is_commit :: "event \<Rightarrow> bool" where
  "is_commit (EvCommit t ctx) = True"
| "is_commit ev = False"

fun is_rollback :: "event \<Rightarrow> bool" where
  "is_rollback (EvRollback t ctx) = True"
| "is_rollback ev = False"

fun is_release :: "event \<Rightarrow> bool" where
  "is_release (EvRelease cn) = True"
| "is_release ev = False"

fun is_begin :: "event \<Rightarrow> bool" where
  "is_begin (EvBeginTx cn ctx isoLevel) = True"
| "is_begin ev = False"

definition commits :: "event list \<Rightarrow> nat" where
  "commits tr = length (filter is_commit tr)"

definition rollbacks :: "event list \<Rightarrow> nat" where
  "rollbacks tr = length (filter is_rollback tr)"

definition releases :: "event list \<Rightarrow> nat" where
  "releases tr = length (filter is_release tr)"

definition begins :: "event list \<Rightarrow> nat" where
  "begins tr = length (filter is_begin tr)"

section \<open>Reading from a cursor\<close>

text \<open>\<open>context.Canceled\<close>.\<close>

definition Canceled :: error where
  "Canceled = ErrorString ''context canceled''"

text \<open>
  Modelled from the spec: the cursor is an object of the driver, of which nothing is
  under src/. Section 5 of the spec: every operation honors the cancellation signal of
  its execution context, and a cancelled context must abort in-flight work and surface a
  Cancelled outcome. Reading from a cursor continues the query that was started under
  the cursor's context; while that context is live the rows are what the world gives.
\<close>

fun Rows_Next :: "world \<Rightarrow> Rows \<Rightarrow> state \<Rightarrow> error + any list" where
  "Rows_Next w (Rows q ctx sql args) s =
     (if Done (trace s) ctx then Inl Canceled else Fetch_res w s q sql args)"

text \<open>
  Modelled from the spec: the row accessor is an object of the driver as well; it reads
  its row on the first access (section 4.5: it errors lazily on first access), under the
  context of the call that made it, with the cancellation rule of section 5.
\<close>

fun Row_Scan :: "world \<Rightarrow> Row \<Rightarrow> state \<Rightarrow> error + any list" where
  "Row_Scan w (Row q ctx sql args) s =
     (if Done (trace s) ctx then Inl Canceled else Fetch_res w s q sql args)"

section \<open>A concrete world\<close>

text \<open>
  A world in which every collaborator succeeds, and the not-found condition of scany
  (\<open>errors.Is(err, pgx.ErrNoRows)\<close>).
\<close>

definition ErrNoRows :: error where
  "ErrNoRows = ErrorString ''no rows in result set''"

definition world_ok :: world where
  "world_ok =
     \<lparr>NotFound = (\<lambda>err. errors_Is err ErrNoRows),
      Duration_String = (\<lambda>d. ''1h0m0s''),
      ParseConfig_res = (\<lambda>dsn. None),
      NewWithConfig_res = (\<lambda>s ctx cfg. Inr 1),
      NewDBScanAPI_res = (\<lambda>allow. Inr 2),
      NewAPI_res = (\<lambda>dbScan. Inr 3),
      Ping_res = (\<lambda>s p ctx. None),
      Acquire_res = (\<lambda>s p ctx. Inr 10),
      BeginTx_res = (\<lambda>s cn ctx isoLevel. Inr 20),
      Commit_res = (\<lambda>s t ctx. None),
      Rollback_res = (\<lambda>s t ctx. None),
      ScanGet_res = (\<lambda>s api ctx q dst sql args. None),
      ScanSelect_res = (\<lambda>s api ctx q dst sql args. None),
      Exec_res = (\<lambda>s q ctx sql args. (''INSERT 0 1'', None)),
      Query_res = (\<lambda>s q ctx sql args. None),
      Fetch_res = (\<lambda>s q sql args. Inr [AnyInt 1])\<rparr>"

definition state0 :: state where
  "state0 = \<lparr>trace = [], allocated = 0\<rparr>"

definition client0 :: client where
  "client0 = \<lparr>dbPool = 1, queryTimeout = Second * 5, scanApi = 3\<rparr>"

definition config0 :: Config where
  "config0 =
     \<lparr>Host = ''db.local'', Port = ''5432'', Name = ''app'', User = ''svc'',
      Password = ''secret'', SSLMode = [], QueryTimeout = 0,
      PoolMinConnections = [], PoolMaxConnections = [],
      PoolMaxConnLife = 0, PoolMaxConnIdle = 0,
      EnableBeforeAcquirePing = False, AllowUnknownColumns = False\<rparr>"

text \<open>Two units of work, and worlds in which one collaborator fails.\<close>

definition unit_ok :: "Context \<Rightarrow> state \<Rightarrow> error option \<times> state" where
  "unit_ok ctx s = (None, s)"

definition unit_failing :: "Context \<Rightarrow> state \<Rightarrow> error option \<times> state" where
  "unit_failing ctx s = (Some (ErrorString ''insert failed''), s)"

definition fails_always :: "state \<Rightarrow> nat \<Rightarrow> Context \<Rightarrow> error option" where
  "fails_always s h ctx = Some (ErrorString ''conn closed'')"

definition world_commit_fails :: world where
  "world_commit_fails = world_ok\<lparr>Commit_res := fails_always\<rparr>"

definition world_rollback_fails :: world where
  "world_rollback_fails = world_ok\<lparr>Rollback_res := fails_always\<rparr>"

definition world_ping_fails :: world where
  "world_ping_fails = world_ok\<lparr>Ping_res := fails_always\<rparr>"

definition no_conn :: "state \<Rightarrow> pool \<Rightarrow> Context \<Rightarrow> error + conn" where
  "no_conn s p ctx = Inl (ErrorString ''closed pool'')"

definition world_acquire_fails :: world where
  "world_acquire_fails = world_ok\<lparr>Acquire_res := no_conn\<rparr>"

definition no_tx :: "state \<Rightarrow> conn \<Rightarrow> Context \<Rightarrow> TxIsoLevel \<Rightarrow> error + tx" where
  "no_tx s cn ctx isoLevel = Inl (ErrorString ''conn busy'')"

definition world_begin_fails :: world where
  "world_begin_fails = world_ok\<lparr>BeginTx_res := no_tx\<rparr>"

definition scan_no_rows ::
  "state \<Rightarrow> scanAPI \<Rightarrow> Context \<Rightarrow> querier \<Rightarrow> dest \<Rightarrow> string \<Rightarrow> any list \<Rightarrow> error option" where
  "scan_no_rows s api ctx q dst sql args =
     Some (WrapError ''scanning one: no rows in result set'' ErrNoRows)"

definition scan_two_rows ::
  "state \<Rightarrow> scanAPI \<Rightarrow> Context \<Rightarrow> querier \<Rightarrow> dest \<Rightarrow> string \<Rightarrow> any list \<Rightarrow> error option" where
  "scan_two_rows s api ctx q dst sql args =
     Some (ErrorString ''scany: expected 1 row, got: 2'')"

definition world_no_rows :: world where
  "world_no_rows = world_ok\<lparr>ScanGet_res := scan_no_rows, ScanSelect_res := scan_no_rows\<rparr>"

definition world_two_rows :: world where
  "world_two_rows = world_ok\<lparr>ScanGet_res := scan_two_rows, ScanSelect_res := scan_two_rows\<rparr>"

definition config_no_password :: Config where
  "config_no_password = config0\<lparr>Password := []\<rparr>"

section \<open>Properties of the context carrier\<close>

lemma Value_derive: "Value (derive ctx steps) txCtxKey = Value ctx txCtxKey"
proof (induction steps arbitrary: ctx)
  case Nil
  show ?case by simp
next
  case (Cons st steps)
  show ?case by (cases st) (simp_all add: Cons.IH)
qed

lemma txFromContext_derive: "txFromContext (derive ctx steps) = txFromContext ctx"
  by (simp add: txFromContext_def Value_derive)

lemma txFromContext_contextWithTx: "txFromContext (contextWithTx ctx tx) = tx"
  by (cases tx) (simp_all add: txFromContext_def contextWithTx_def)

lemma Value_attachment_free: "attachment_free ctx \<Longrightarrow> Value ctx txCtxKey = AnyNil"
  by (induction ctx) simp_all

lemma Value_other_key: "Value (contextWithTx ctx tx) (UserKey k) = Value ctx (UserKey k)"
  by (simp add: contextWithTx_def)

text \<open>
  C8. Attaching a transaction and looking it up gives it back, also from any context
  derived from the attached one. The context attached to is the parent of the new node:
  a lookup under a caller's key goes through the new node to it, and the contexts
  derived from it look up what it looks up. A chain without attachment has no
  transaction, and of two attachments the nearer one is found.
\<close>

theorem C8_attach_lookup:
  "txFromContext (contextWithTx ctx tx) = tx
   \<and> txFromContext (derive (contextWithTx ctx tx) steps) = tx
   \<and> (\<exists>v. contextWithTx ctx tx = WithValue ctx txCtxKey v)
   \<and> Value (contextWithTx ctx tx) (UserKey k) = Value ctx (UserKey k)
   \<and> txFromContext (derive ctx steps) = txFromContext ctx
   \<and> (attachment_free ctx \<longrightarrow> txFromContext (derive ctx steps) = None)
   \<and> txFromContext
        (derive (contextWithTx (derive (contextWithTx ctx tx) steps) tx') steps') = tx'"
proof (intro conjI impI)
  show "txFromContext (contextWithTx ctx tx) = tx"
    by (rule txFromContext_contextWithTx)
  show "txFromContext (derive (contextWithTx ctx tx) steps) = tx"
    by (simp add: txFromContext_derive txFromContext_contextWithTx)
  show "\<exists>v. contextWithTx ctx tx = WithValue ctx txCtxKey v"
    by (simp add: contextWithTx_def)
  show "Value (contextWithTx ctx tx) (UserKey k) = Value ctx (UserKey k)"
    by (rule Value_other_key)
  show "txFromContext (derive ctx steps) = txFromContext ctx"
    by (rule txFromContext_derive)
  show "txFromContext (derive ctx steps) = None" if "attachment_free ctx"
    using that by (simp add: txFromContext_def Value_derive Value_attachment_free)
  show "txFromContext
      (derive (contextWithTx (derive (contextWithTx ctx tx) steps) tx') steps') = tx'"
    by (simp add: txFromContext_derive txFromContext_contextWithTx)
qed

theorem C8_attach_lookup_witness:
  "attachment_free (WithTimeout Background Second 0)
   \<and> txFromContext (derive (WithTimeout Background Second 0) [StepValue ''user'' (AnyInt 7)]) = None
   \<and> txFromContext (contextWithTx (WithTimeout Background Second 0) (Some 3)) = Some 3
   \<and> txFromContext
        (derive (contextWithTx (derive (contextWithTx (WithTimeout Background Second 0) (Some 3))
           [StepTimeout Second 1]) (Some 4)) [StepValue ''user'' AnyNil]) = Some 4"
  using C8_attach_lookup [of "WithTimeout Background Second 0" "Some 3"
      "[StepTimeout Second 1]" "''user''" "Some 4" "[StepValue ''user'' AnyNil]"]
    C8_attach_lookup [of "WithTimeout Background Second 0" "Some 3"
      "[StepValue ''user'' (AnyInt 7)]" "''user''" "Some 4" "[]"]
  by (simp add: txFromContext_def)

section \<open>Traces of the collaborator calls\<close>

lemma trace_emit: "trace (emit ev s) = trace s @ [ev]"
  by (simp add: emit_def)

lemma txFromContext_WithTimeout: "txFromContext (WithTimeout ctx d n) = txFromContext ctx"
  by (simp add: txFromContext_def)

lemma Get_trace:
  "trace (snd (Get w c ctx dst sql args s)) =
     trace s @
       [EvScanGet (scanApi c) (WithTimeout ctx (queryTimeout c) (allocated s))
          (case txFromContext ctx of None \<Rightarrow> OnPool (dbPool c) | Some t \<Rightarrow> OnTx t) dst sql args,
        EvCancel (WithTimeout ctx (queryTimeout c) (allocated s))]"
  by (simp add: Get_def context_WithTimeout_def getInTx_def scanApi_Get_def cancel_def
      trace_emit txFromContext_def split: option.splits any.splits prod.splits)

lemma Select_trace:
  "trace (snd (Select w c ctx dst sql args s)) =
     trace s @
       [EvScanSelect (scanApi c) (WithTimeout ctx (queryTimeout c) (allocated s))
          (case txFromContext ctx of None \<Rightarrow> OnPool (dbPool c) | Some t \<Rightarrow> OnTx t) dst sql args,
        EvCancel (WithTimeout ctx (queryTimeout c) (allocated s))]"
  by (simp add: Select_def context_WithTimeout_def selectInTx_def scanApi_Select_def cancel_def
      trace_emit txFromContext_def split: option.splits any.splits prod.splits)

lemma Exec_trace:
  "trace (snd (Exec w c ctx sql args s)) =
     trace s @
       [EvExec (case txFromContext ctx of None \<Rightarrow> OnPool (dbPool c) | Some t \<Rightarrow> OnTx t)
          (WithTimeout ctx (queryTimeout c) (allocated s)) sql args,
        EvCancel (WithTimeout ctx (queryTimeout c) (allocated s))]"
  by (simp add: Exec_def context_WithTimeout_def execInTx_def querier_Exec_def cancel_def
      trace_emit txFromContext_def split: option.splits any.splits prod.splits)

lemma Query_trace:
  "trace (snd (Query w c ctx sql args s)) =
     trace s @
       [EvQuery (case txFromContext ctx of None \<Rightarrow> OnPool (dbPool c) | Some t \<Rightarrow> OnTx t)
          (WithTimeout ctx (queryTimeout c) (allocated s)) sql args,
        EvCancel (WithTimeout ctx (queryTimeout c) (allocated s))]"
  by (simp add: Query_def context_WithTimeout_def queryInTx_def querier_Query_def cancel_def
      trace_emit txFromContext_def split: option.splits any.splits prod.splits)

lemma QueryRow_trace:
  "trace (snd (QueryRow c ctx sql args s)) =
     trace s @
       [EvQueryRow (case txFromContext ctx of None \<Rightarrow> OnPool (dbPool c) | Some t \<Rightarrow> OnTx t)
          (WithTimeout ctx (queryTimeout c) (allocated s)) sql args,
        EvCancel (WithTimeout ctx (queryTimeout c) (allocated s))]"
  by (simp add: QueryRow_def context_WithTimeout_def queryRowsInTx_def querier_QueryRow_def
      cancel_def trace_emit txFromContext_def split: option.splits any.splits prod.splits)

lemma Query_result:
  "Query w c ctx sql args s =
     ((Rows (case txFromContext ctx of None \<Rightarrow> OnPool (dbPool c) | Some t \<Rightarrow> OnTx t)
         (WithTimeout ctx (queryTimeout c) (allocated s)) sql args,
       Query_res w (s\<lparr>allocated := Suc (allocated s)\<rparr>)
         (case txFromContext ctx of None \<Rightarrow> OnPool (dbPool c) | Some t \<Rightarrow> OnTx t)
         (WithTimeout ctx (queryTimeout c) (allocated s)) sql args),
      emit (EvCancel (WithTimeout ctx (queryTimeout c) (allocated s)))
        (emit (EvQuery (case txFromContext ctx of None \<Rightarrow> OnPool (dbPool c) | Some t \<Rightarrow> OnTx t)
           (WithTimeout ctx (queryTimeout c) (allocated s)) sql args)
           (s\<lparr>allocated := Suc (allocated s)\<rparr>)))"
  by (simp add: Query_def context_WithTimeout_def queryInTx_def querier_Query_def cancel_def
      txFromContext_WithTimeout split: option.splits)

lemma QueryRow_result:
  "QueryRow c ctx sql args s =
     (Row (case txFromContext ctx of None \<Rightarrow> OnPool (dbPool c) | Some t \<Rightarrow> OnTx t)
         (WithTimeout ctx (queryTimeout c) (allocated s)) sql args,
      emit (EvCancel (WithTimeout ctx (queryTimeout c) (allocated s)))
        (emit (EvQueryRow (case txFromContext ctx of None \<Rightarrow> OnPool (dbPool c) | Some t \<Rightarrow> OnTx t)
           (WithTimeout ctx (queryTimeout c) (allocated s)) sql args)
           (s\<lparr>allocated := Suc (allocated s)\<rparr>)))"
  by (simp add: QueryRow_def context_WithTimeout_def queryRowsInTx_def querier_QueryRow_def
      cancel_def txFromContext_WithTimeout split: option.splits)

section \<open>The unit of work\<close>

lemma InTx_acquire_failed:
  assumes "Acquire_res w s (dbPool c) ctx = Inl err"
  shows "InTx w c ctx isoLevel f s =
           (Some (Errorf_w ''acquiring connection'' err), emit (EvAcquire (dbPool c) ctx) s)"
  using assms by (simp add: InTx_def pool_Acquire_def)

lemma InTx_begin_failed:
  assumes "Acquire_res w s (dbPool c) ctx = Inr cn"
    and "BeginTx_res w (emit (EvAcquire (dbPool c) ctx) s) cn ctx isoLevel = Inl err"
  shows "InTx w c ctx isoLevel f s =
           (Some (Errorf_w ''starting transaction'' err),
            emit (EvRelease cn) (emit (EvBeginTx cn ctx isoLevel) (emit (EvAcquire (dbPool c) ctx) s)))"
  using assms by (simp add: InTx_def pool_Acquire_def conn_BeginTx_def conn_Release_def)

lemma InTx_begun:
  assumes "Acquire_res w s (dbPool c) ctx = Inr cn"
    and "BeginTx_res w (emit (EvAcquire (dbPool c) ctx) s) cn ctx isoLevel = Inr t"
  shows "InTx w c ctx isoLevel f s =
           (case f (contextWithTx ctx (Some t))
                   (emit (EvBeginTx cn ctx isoLevel) (emit (EvAcquire (dbPool c) ctx) s)) of
              (Some err, s3) \<Rightarrow>
                (case Rollback_res w s3 t (contextWithTx ctx (Some t)) of
                   Some err1 \<Rightarrow>
                     Some (WrapError (''rolling back transaction: '' @ Error err1
                             @ '' (original error: '' @ Error err @ '')'') err)
                 | None \<Rightarrow> Some err,
                 emit (EvRelease cn) (emit (EvRollback t (contextWithTx ctx (Some t))) s3))
            | (None, s3) \<Rightarrow>
                (case Commit_res w s3 t (contextWithTx ctx (Some t)) of
                   Some err \<Rightarrow> Some (Errorf_w ''committing transaction'' err)
                 | None \<Rightarrow> None,
                 emit (EvRelease cn) (emit (EvCommit t (contextWithTx ctx (Some t))) s3)))"
  using assms
  by (simp add: InTx_def pool_Acquire_def conn_BeginTx_def conn_Release_def tx_Commit_def
      tx_Rollback_def Let_def split: prod.splits option.splits)

lemma commits_append: "commits (xs @ ys) = commits xs + commits ys"
  by (simp add: commits_def)

lemma rollbacks_append: "rollbacks (xs @ ys) = rollbacks xs + rollbacks ys"
  by (simp add: rollbacks_def)

lemma releases_append: "releases (xs @ ys) = releases xs + releases ys"
  by (simp add: releases_def)

lemma begins_append: "begins (xs @ ys) = begins xs + begins ys"
  by (simp add: begins_def)

lemma errors_Is_refl: "errors_Is err err"
  by (cases err) simp_all

lemma sublist_mid: "sublist xs (ps @ xs @ ss)"
  unfolding sublist_def by blast

lemma time_bounded_contextWithTx: "time_bounded (contextWithTx ctx tx) = time_bounded ctx"
  by (simp add: contextWithTx_def)

lemma Done_mono: "Done tr ctx \<Longrightarrow> set tr \<subseteq> set tr' \<Longrightarrow> Done tr' ctx"
  by (induction ctx) auto

lemma Done_prefix: "Done tr ctx \<Longrightarrow> prefix tr tr' \<Longrightarrow> Done tr' ctx"
  by (rule Done_mono) (auto dest: set_mono_prefix)

section \<open>Configuration and construction\<close>

lemma keys_setIfNotEmpty:
  "fst ` set (setIfNotEmpty m k val) = (if val \<noteq> [] then {k} \<union> fst ` set m else fst ` set m)"
  by (simp add: setIfNotEmpty_def dom_update)

lemma keys_setIfPositiveDuration:
  "fst ` set (setIfPositiveDuration w m k d) = (if 0 <s d then {k} \<union> fst ` set m else fst ` set m)"
  by (simp add: setIfPositiveDuration_def dom_update)

lemma password_key:
  "(''password'' \<in> fst ` set (dbValues w cfg)) = (Password cfg \<noteq> [])"
  unfolding dbValues_def Let_def keys_setIfNotEmpty keys_setIfPositiveDuration
  by simp

lemma New_failure_is_wrapped:
  "fst (New w ctx cfg s) = Inl err \<Longrightarrow> \<exists>msg cause. err = WrapError msg cause"
  by (auto simp add: New_def Let_def Errorf_w_def pgxpool_NewWithConfig_def pool_Ping_def
      split: option.splits sum.splits prod.splits if_splits)

lemma New_success:
  assumes "ParseConfig_res w (dbDSN w cfg) = None"
    and "NewWithConfig_res w s ctx
           \<lparr>ConnString = dbDSN w cfg, BeforeAcquire = EnableBeforeAcquirePing cfg\<rparr> = Inr pl"
    and "Ping_res w (emit (EvNewWithConfig ctx
           \<lparr>ConnString = dbDSN w cfg, BeforeAcquire = EnableBeforeAcquirePing cfg\<rparr>) s) pl ctx = None"
    and "NewDBScanAPI_res w (AllowUnknownColumns cfg) = Inr dbScan"
    and "NewAPI_res w dbScan = Inr api"
  shows "New w ctx cfg s =
           (Inr \<lparr>dbPool = pl,
                 queryTimeout = (if 0 <s QueryTimeout cfg then QueryTimeout cfg else Second * 5),
                 scanApi = api\<rparr>,
            emit (EvPing pl ctx) (emit (EvNewWithConfig ctx
              \<lparr>ConnString = dbDSN w cfg, BeforeAcquire = EnableBeforeAcquirePing cfg\<rparr>) s))"
  using assms
  by (cases "EnableBeforeAcquirePing cfg")
    (simp_all add: New_def Let_def pgxpool_NewWithConfig_def pool_Ping_def)

lemma New_queryTimeout:
  "fst (New w ctx cfg s) = Inr cl \<Longrightarrow>
     queryTimeout cl = (if 0 <s QueryTimeout cfg then QueryTimeout cfg else Second * 5)"
  by (auto simp add: New_def Let_def pgxpool_NewWithConfig_def pool_Ping_def
      split: option.splits sum.splits prod.splits if_splits)

lemma Valid_iff:
  "(Valid cfg \<noteq> None) =
     (Host cfg = [] \<or> Port cfg = [] \<or> Name cfg = [] \<or> User cfg = [] \<or> Password cfg = [])"
  by (simp add: Valid_def)

lemma dbDSN_config0: "dbDSN w config0 = ''dbname=app user=svc host=db.local port=5432 password=secret''"
  by (simp add: dbDSN_def dbValues_def setIfNotEmpty_def setIfPositiveDuration_def config0_def)

lemma dbDSN_config_no_password:
  "dbDSN w config_no_password = ''dbname=app user=svc host=db.local port=5432''"
  by (simp add: dbDSN_def dbValues_def setIfNotEmpty_def setIfPositiveDuration_def config0_def
      config_no_password_def)

section \<open>Routing\<close>

text \<open>
  C1. Without a transaction in the context, each of \<open>Get\<close>, \<open>Select\<close>, \<open>Exec\<close>,
  \<open>Query\<close> and \<open>QueryRow\<close> makes one call on a collaborator, with the pool as the row
  source; with transaction \<open>t\<close> in the context the one call has \<open>t\<close> as the row
  source, and none goes to the pool. A context derived in any number of steps from one
  with \<open>t\<close> attached still carries \<open>t\<close>, and one derived from a chain without
  attachment carries none.
\<close>

theorem C1_routing:
  "(txFromContext ctx = None \<longrightarrow>
      trace (snd (Get w c ctx dst sql args s)) =
        trace s @ [EvScanGet (scanApi c) (WithTimeout ctx (queryTimeout c) (allocated s))
                     (OnPool (dbPool c)) dst sql args,
                   EvCancel (WithTimeout ctx (queryTimeout c) (allocated s))]
    \<and> trace (snd (Select w c ctx dst sql args s)) =
        trace s @ [EvScanSelect (scanApi c) (WithTimeout ctx (queryTimeout c) (allocated s))
                     (OnPool (dbPool c)) dst sql args,
                   EvCancel (WithTimeout ctx (queryTimeout c) (allocated s))]
    \<and> trace (snd (Exec w c ctx sql args s)) =
        trace s @ [EvExec (OnPool (dbPool c)) (WithTimeout ctx (queryTimeout c) (allocated s))
                     sql args,
                   EvCancel (WithTimeout ctx (queryTimeout c) (allocated s))]
    \<and> trace (snd (Query w c ctx sql args s)) =
        trace s @ [EvQuery (OnPool (dbPool c)) (WithTimeout ctx (queryTimeout c) (allocated s))
                     sql args,
                   EvCancel (WithTimeout ctx (queryTimeout c) (allocated s))]
    \<and> trace (snd (QueryRow c ctx sql args s)) =
        trace s @ [EvQueryRow (OnPool (dbPool c)) (WithTimeout ctx (queryTimeout c) (allocated s))
                     sql args,
                   EvCancel (WithTimeout ctx (queryTimeout c) (allocated s))])
   \<and> (txFromContext ctx = Some t \<longrightarrow>
      trace (snd (Get w c ctx dst sql args s)) =
        trace s @ [EvScanGet (scanApi c) (WithTimeout ctx (queryTimeout c) (allocated s))
                     (OnTx t) dst sql args,
                   EvCancel (WithTimeout ctx (queryTimeout c) (allocated s))]
    \<and> trace (snd (Select w c ctx dst sql args s)) =
        trace s @ [EvScanSelect (scanApi c) (WithTimeout ctx (queryTimeout c) (allocated s))
                     (OnTx t) dst sql args,
                   EvCancel (WithTimeout ctx (queryTimeout c) (allocated s))]
    \<and> trace (snd (Exec w c ctx sql args s)) =
        trace s @ [EvExec (OnTx t) (WithTimeout ctx (queryTimeout c) (allocated s)) sql args,
                   EvCancel (WithTimeout ctx (queryTimeout c) (allocated s))]
    \<and> trace (snd (Query w c ctx sql args s)) =
        trace s @ [EvQuery (OnTx t) (WithTimeout ctx (queryTimeout c) (allocated s)) sql args,
                   EvCancel (WithTimeout ctx (queryTimeout c) (allocated s))]
    \<and> trace (snd (QueryRow c ctx sql args s)) =
        trace s @ [EvQueryRow (OnTx t) (WithTimeout ctx (queryTimeout c) (allocated s)) sql args,
                   EvCancel (WithTimeout ctx (queryTimeout c) (allocated s))])
   \<and> (attachment_free ctx0 \<longrightarrow> txFromContext (derive ctx0 steps) = None)
   \<and> txFromContext (derive (contextWithTx ctx0 (Some t)) steps) = Some t"
proof (intro conjI impI)
  show "txFromContext (derive ctx0 steps) = None" if "attachment_free ctx0"
    using that by (simp add: txFromContext_def Value_derive Value_attachment_free)
  show "txFromContext (derive (contextWithTx ctx0 (Some t)) steps) = Some t"
    by (simp add: txFromContext_derive txFromContext_contextWithTx)
qed (simp_all add: Get_trace Select_trace Exec_trace Query_trace QueryRow_trace)

text \<open>
  C1 on the background context and on a context derived from one with transaction 20 attached.
\<close>

theorem C1_routing_witness:
  "txFromContext Background = None
   \<and> trace (snd (Exec world_ok client0 Background ''delete from t'' [] state0)) =
       [EvExec (OnPool 1) (WithTimeout Background (Second * 5) 0) ''delete from t'' [],
        EvCancel (WithTimeout Background (Second * 5) 0)]
   \<and> attachment_free Background
   \<and> txFromContext (derive Background [StepTimeout Second 4]) = None
   \<and> txFromContext (derive (contextWithTx Background (Some 20)) [StepTimeout Second 4]) = Some 20
   \<and> trace (snd (Exec world_ok client0
        (derive (contextWithTx Background (Some 20)) [StepTimeout Second 4])
        ''delete from t'' [] state0)) =
       [EvExec (OnTx 20)
          (WithTimeout (derive (contextWithTx Background (Some 20)) [StepTimeout Second 4])
             (Second * 5) 0) ''delete from t'' [],
        EvCancel
          (WithTimeout (derive (contextWithTx Background (Some 20)) [StepTimeout Second 4])
             (Second * 5) 0)]"
proof -
  have h1: "txFromContext Background = None"
    by (simp add: txFromContext_def)
  have h2: "txFromContext (derive (contextWithTx Background (Some 20)) [StepTimeout Second 4])
              = Some 20"
    by (simp add: txFromContext_def contextWithTx_def)
  have h3: "attachment_free Background"
    by simp
  show ?thesis
    using h1 h2 h3
      C1_routing [where ctx = Background and w = world_ok and c = client0
        and sql = "''delete from t''" and args = "[]" and s = state0
        and ctx0 = Background and steps = "[StepTimeout Second 4]" and t = 20]
      C1_routing [where ctx = "derive (contextWithTx Background (Some 20)) [StepTimeout Second 4]"
        and w = world_ok and c = client0
        and sql = "''delete from t''" and args = "[]" and s = state0
        and ctx0 = Background and steps = "[StepTimeout Second 4]" and t = 20]
    by (simp add: client0_def state0_def)
qed

section \<open>Commit, rollback and release\<close>

text \<open>
  C2. After a successful acquire and begin, with \<open>s3\<close> the state the unit of work
  leaves: if it returned nil, \<open>InTx\<close> adds one commit and the release to the trace
  and no rollback; if it returned an error, one rollback and the release and no commit;
  before the unit of work runs \<open>InTx\<close> has neither committed nor rolled back. When
  the unit of work returned nil, \<open>InTx\<close> returns nil if the commit succeeds and the
  wrapped commit error if it fails.
\<close>

theorem C2_commit_or_rollback:
  assumes "Acquire_res w s (dbPool c) ctx = Inr cn"
    and "BeginTx_res w (emit (EvAcquire (dbPool c) ctx) s) cn ctx isoLevel = Inr t"
    and "f (contextWithTx ctx (Some t))
           (emit (EvBeginTx cn ctx isoLevel) (emit (EvAcquire (dbPool c) ctx) s)) = (r, s3)"
  shows "(r = None \<longrightarrow>
            trace (snd (InTx w c ctx isoLevel f s)) =
              trace s3 @ [EvCommit t (contextWithTx ctx (Some t)), EvRelease cn]
          \<and> commits (trace (snd (InTx w c ctx isoLevel f s))) = commits (trace s3) + 1
          \<and> rollbacks (trace (snd (InTx w c ctx isoLevel f s))) = rollbacks (trace s3))
       \<and> (r \<noteq> None \<longrightarrow>
            trace (snd (InTx w c ctx isoLevel f s)) =
              trace s3 @ [EvRollback t (contextWithTx ctx (Some t)), EvRelease cn]
          \<and> rollbacks (trace (snd (InTx w c ctx isoLevel f s))) = rollbacks (trace s3) + 1
          \<and> commits (trace (snd (InTx w c ctx isoLevel f s))) = commits (trace s3))
       \<and> commits (trace (emit (EvBeginTx cn ctx isoLevel) (emit (EvAcquire (dbPool c) ctx) s)))
           = commits (trace s)
       \<and> rollbacks (trace (emit (EvBeginTx cn ctx isoLevel) (emit (EvAcquire (dbPool c) ctx) s)))
           = rollbacks (trace s)
       \<and> (r = None \<longrightarrow>
            fst (InTx w c ctx isoLevel f s) =
              (case Commit_res w s3 t (contextWithTx ctx (Some t)) of
                 Some err \<Rightarrow> Some (Errorf_w ''committing transaction'' err)
               | None \<Rightarrow> None))"
proof -
  note eq = InTx_begun [OF assms(1) assms(2), of f]
  show ?thesis
  proof (cases r)
    case None
    with eq assms(3) show ?thesis
      by (simp add: trace_emit commits_append rollbacks_append commits_def rollbacks_def)
  next
    case (Some err)
    with eq assms(3) show ?thesis
      by (simp add: trace_emit commits_append rollbacks_append commits_def rollbacks_def)
  qed
qed

text \<open>
  C2 on a unit of work that succeeds, one that fails, and a world whose commit fails.
\<close>

theorem C2_commit_or_rollback_witness:
  "Acquire_res world_ok state0 (dbPool client0) Background = Inr 10
   \<and> BeginTx_res world_ok (emit (EvAcquire (dbPool client0) Background) state0) 10 Background
       ''serializable'' = Inr 20
   \<and> trace (snd (InTx world_ok client0 Background ''serializable'' unit_ok state0)) =
       [EvAcquire 1 Background, EvBeginTx 10 Background ''serializable'',
        EvCommit 20 (contextWithTx Background (Some 20)), EvRelease 10]
   \<and> fst (InTx world_ok client0 Background ''serializable'' unit_ok state0) = None
   \<and> trace (snd (InTx world_ok client0 Background ''serializable'' unit_failing state0)) =
       [EvAcquire 1 Background, EvBeginTx 10 Background ''serializable'',
        EvRollback 20 (contextWithTx Background (Some 20)), EvRelease 10]
   \<and> fst (InTx world_commit_fails client0 Background ''serializable'' unit_ok state0) =
       Some (Errorf_w ''committing transaction'' (ErrorString ''conn closed''))"
proof -
  have a: "Acquire_res world_ok state0 (dbPool client0) Background = Inr 10"
    by (simp add: world_ok_def)
  have b: "BeginTx_res world_ok (emit (EvAcquire (dbPool client0) Background) state0) 10
             Background ''serializable'' = Inr 20"
    by (simp add: world_ok_def)
  have a': "Acquire_res world_commit_fails state0 (dbPool client0) Background = Inr 10"
    by (simp add: world_ok_def world_commit_fails_def)
  have b': "BeginTx_res world_commit_fails (emit (EvAcquire (dbPool client0) Background) state0)
             10 Background ''serializable'' = Inr 20"
    by (simp add: world_ok_def world_commit_fails_def)
  have f1: "unit_ok (contextWithTx Background (Some 20))
              (emit (EvBeginTx 10 Background ''serializable'')
                 (emit (EvAcquire (dbPool client0) Background) state0)) =
            (None, emit (EvBeginTx 10 Background ''serializable'')
                 (emit (EvAcquire (dbPool client0) Background) state0))"
    by (simp add: unit_ok_def)
  have f2: "unit_failing (contextWithTx Background (Some 20))
              (emit (EvBeginTx 10 Background ''serializable'')
                 (emit (EvAcquire (dbPool client0) Background) state0)) =
            (Some (ErrorString ''insert failed''), emit (EvBeginTx 10 Background ''serializable'')
                 (emit (EvAcquire (dbPool client0) Background) state0))"
    by (simp add: unit_failing_def)
  show ?thesis
    using a b C2_commit_or_rollback [where f = unit_ok, OF a b f1]
      C2_commit_or_rollback [where f = unit_failing, OF a b f2]
      C2_commit_or_rollback [where f = unit_ok, OF a' b' f1]
    by (simp add: trace_emit client0_def state0_def world_ok_def world_commit_fails_def
        fails_always_def)
qed

text \<open>
  C3. When the unit of work fails with \<open>err\<close> and the rollback fails with
  \<open>err1\<close>, \<open>InTx\<close> returns an error that wraps \<open>err\<close> (\<open>errors.Unwrap\<close> and
  \<open>errors.Is\<close> find it) and whose message holds the messages of both \<open>err1\<close> and
  \<open>err\<close>; when the rollback succeeds it returns \<open>err\<close> itself.
\<close>

theorem C3_rollback_failure_keeps_cause:
  assumes "Acquire_res w s (dbPool c) ctx = Inr cn"
    and "BeginTx_res w (emit (EvAcquire (dbPool c) ctx) s) cn ctx isoLevel = Inr t"
    and "f (contextWithTx ctx (Some t))
           (emit (EvBeginTx cn ctx isoLevel) (emit (EvAcquire (dbPool c) ctx) s)) = (Some err, s3)"
  shows "(Rollback_res w s3 t (contextWithTx ctx (Some t)) = Some err1 \<longrightarrow>
            fst (InTx w c ctx isoLevel f s) =
              Some (WrapError (''rolling back transaction: '' @ Error err1
                      @ '' (original error: '' @ Error err @ '')'') err)
          \<and> (\<exists>res. fst (InTx w c ctx isoLevel f s) = Some res
                \<and> Unwrap res = Some err \<and> errors_Is res err
                \<and> sublist (Error err1) (Error res) \<and> sublist (Error err) (Error res)))
       \<and> (Rollback_res w s3 t (contextWithTx ctx (Some t)) = None \<longrightarrow>
            fst (InTx w c ctx isoLevel f s) = Some err)"
proof -
  note eq = InTx_begun [OF assms(1) assms(2), of f]
  have sub1: "sublist (Error err1) (''rolling back transaction: '' @ Error err1
                      @ '' (original error: '' @ Error err @ '')'')" for err1
    by (rule sublist_mid)
  have sub2: "sublist (Error err) (''rolling back transaction: '' @ Error err1
                      @ '' (original error: '' @ Error err @ '')'')" for err1
    using sublist_mid [of "Error err"
        "''rolling back transaction: '' @ Error err1 @ '' (original error: ''" "'')''"]
    by simp
  show ?thesis
    using eq assms(3) sub1 sub2 by (simp add: errors_Is_refl)
qed

text \<open>
  C3 on a failing unit of work, with a rollback that fails and one that succeeds.
\<close>

theorem C3_rollback_failure_keeps_cause_witness:
  "Acquire_res world_rollback_fails state0 (dbPool client0) Background = Inr 10
   \<and> BeginTx_res world_rollback_fails (emit (EvAcquire (dbPool client0) Background) state0) 10
       Background ''serializable'' = Inr 20
   \<and> fst (InTx world_rollback_fails client0 Background ''serializable'' unit_failing state0) =
       Some (WrapError
         ''rolling back transaction: conn closed (original error: insert failed)''
         (ErrorString ''insert failed''))
   \<and> fst (InTx world_ok client0 Background ''serializable'' unit_failing state0) =
       Some (ErrorString ''insert failed'')"
proof -
  have a: "Acquire_res world_rollback_fails state0 (dbPool client0) Background = Inr 10"
    by (simp add: world_ok_def world_rollback_fails_def)
  have b: "BeginTx_res world_rollback_fails (emit (EvAcquire (dbPool client0) Background) state0)
             10 Background ''serializable'' = Inr 20"
    by (simp add: world_ok_def world_rollback_fails_def)
  have a': "Acquire_res world_ok state0 (dbPool client0) Background = Inr 10"
    by (simp add: world_ok_def)
  have b': "BeginTx_res world_ok (emit (EvAcquire (dbPool client0) Background) state0) 10
             Background ''serializable'' = Inr 20"
    by (simp add: world_ok_def)
  have f2: "unit_failing (contextWithTx Background (Some 20))
              (emit (EvBeginTx 10 Background ''serializable'')
                 (emit (EvAcquire (dbPool client0) Background) state0)) =
            (Some (ErrorString ''insert failed''), emit (EvBeginTx 10 Background ''serializable'')
                 (emit (EvAcquire (dbPool client0) Background) state0))"
    by (simp add: unit_failing_def)
  show ?thesis
    using a b
      C3_rollback_failure_keeps_cause [where f = unit_failing
        and ?err1.0 = "ErrorString ''conn closed''", OF a b f2]
      C3_rollback_failure_keeps_cause [where f = unit_failing
        and ?err1.0 = "ErrorString ''conn closed''", OF a' b' f2]
    by (simp add: world_ok_def world_rollback_fails_def fails_always_def)
qed

text \<open>
  C4. When the acquisition fails, \<open>InTx\<close> returns the wrapped acquisition error,
  the only call it made is the acquisition, and it has begun no transaction and released
  nothing. When a connection \<open>cn\<close> was acquired, the last thing \<open>InTx\<close> does is
  release \<open>cn\<close>, once: after a failed begin, and after the commit or the rollback
  whatever their outcome; before the unit of work runs it has released nothing.
\<close>

theorem C4_release_once:
  "(Acquire_res w s (dbPool c) ctx = Inl err \<longrightarrow>
      InTx w c ctx isoLevel f s =
        (Some (Errorf_w ''acquiring connection'' err), emit (EvAcquire (dbPool c) ctx) s)
      \<and> begins (trace (snd (InTx w c ctx isoLevel f s))) = begins (trace s)
      \<and> releases (trace (snd (InTx w c ctx isoLevel f s))) = releases (trace s))
   \<and> (Acquire_res w s (dbPool c) ctx = Inr cn \<longrightarrow>
      BeginTx_res w (emit (EvAcquire (dbPool c) ctx) s) cn ctx isoLevel = Inl err \<longrightarrow>
        trace (snd (InTx w c ctx isoLevel f s)) =
          trace s @ [EvAcquire (dbPool c) ctx, EvBeginTx cn ctx isoLevel, EvRelease cn]
        \<and> releases (trace (snd (InTx w c ctx isoLevel f s))) = releases (trace s) + 1
        \<and> fst (InTx w c ctx isoLevel f s) = Some (Errorf_w ''starting transaction'' err))
   \<and> (Acquire_res w s (dbPool c) ctx = Inr cn \<longrightarrow>
      BeginTx_res w (emit (EvAcquire (dbPool c) ctx) s) cn ctx isoLevel = Inr t \<longrightarrow>
      f (contextWithTx ctx (Some t))
        (emit (EvBeginTx cn ctx isoLevel) (emit (EvAcquire (dbPool c) ctx) s)) = (r, s3) \<longrightarrow>
        trace (snd (InTx w c ctx isoLevel f s)) =
          trace s3 @ [if r = None then EvCommit t (contextWithTx ctx (Some t))
                      else EvRollback t (contextWithTx ctx (Some t)),
                      EvRelease cn]
        \<and> releases (trace (snd (InTx w c ctx isoLevel f s))) = releases (trace s3) + 1
        \<and> releases (trace (emit (EvBeginTx cn ctx isoLevel) (emit (EvAcquire (dbPool c) ctx) s)))
            = releases (trace s))"
proof (intro conjI impI)
  assume a: "Acquire_res w s (dbPool c) ctx = Inl err"
  show "InTx w c ctx isoLevel f s =
        (Some (Errorf_w ''acquiring connection'' err), emit (EvAcquire (dbPool c) ctx) s)"
    by (rule InTx_acquire_failed [OF a])
  show "begins (trace (snd (InTx w c ctx isoLevel f s))) = begins (trace s)"
    by (simp add: InTx_acquire_failed [OF a] trace_emit begins_def)
  show "releases (trace (snd (InTx w c ctx isoLevel f s))) = releases (trace s)"
    by (simp add: InTx_acquire_failed [OF a] trace_emit releases_def)
next
  assume a: "Acquire_res w s (dbPool c) ctx = Inr cn"
    and b: "BeginTx_res w (emit (EvAcquire (dbPool c) ctx) s) cn ctx isoLevel = Inl err"
  note eq = InTx_begin_failed [OF a b, of f]
  show "trace (snd (InTx w c ctx isoLevel f s)) =
          trace s @ [EvAcquire (dbPool c) ctx, EvBeginTx cn ctx isoLevel, EvRelease cn]"
    by (simp add: eq trace_emit)
  show "releases (trace (snd (InTx w c ctx isoLevel f s))) = releases (trace s) + 1"
    by (simp add: eq trace_emit releases_def)
  show "fst (InTx w c ctx isoLevel f s) = Some (Errorf_w ''starting transaction'' err)"
    by (simp add: eq)
next
  assume a: "Acquire_res w s (dbPool c) ctx = Inr cn"
    and b: "BeginTx_res w (emit (EvAcquire (dbPool c) ctx) s) cn ctx isoLevel = Inr t"
    and r: "f (contextWithTx ctx (Some t))
        (emit (EvBeginTx cn ctx isoLevel) (emit (EvAcquire (dbPool c) ctx) s)) = (r, s3)"
  note eq = InTx_begun [OF a b, of f]
  show "trace (snd (InTx w c ctx isoLevel f s)) =
          trace s3 @ [if r = None then EvCommit t (contextWithTx ctx (Some t))
                      else EvRollback t (contextWithTx ctx (Some t)),
                      EvRelease cn]"
    using r by (cases r) (simp_all add: eq trace_emit)
  show "releases (trace (snd (InTx w c ctx isoLevel f s))) = releases (trace s3) + 1"
    using r by (cases r) (simp_all add: eq trace_emit releases_def)
  show "releases (trace (emit (EvBeginTx cn ctx isoLevel) (emit (EvAcquire (dbPool c) ctx) s)))
            = releases (trace s)"
    by (simp add: trace_emit releases_def)
qed

text \<open>
  C4 in worlds where the acquisition, the begin and the rollback fail.
\<close>

theorem C4_release_once_witness:
  "Acquire_res world_acquire_fails state0 (dbPool client0) Background
     = Inl (ErrorString ''closed pool'')
   \<and> InTx world_acquire_fails client0 Background ''serializable'' unit_ok state0 =
       (Some (Errorf_w ''acquiring connection'' (ErrorString ''closed pool'')),
        \<lparr>trace = [EvAcquire 1 Background], allocated = 0\<rparr>)
   \<and> Acquire_res world_begin_fails state0 (dbPool client0) Background = Inr 10
   \<and> BeginTx_res world_begin_fails (emit (EvAcquire (dbPool client0) Background) state0) 10
       Background ''serializable'' = Inl (ErrorString ''conn busy'')
   \<and> trace (snd (InTx world_begin_fails client0 Background ''serializable'' unit_ok state0)) =
       [EvAcquire 1 Background, EvBeginTx 10 Background ''serializable'', EvRelease 10]
   \<and> Acquire_res world_rollback_fails state0 (dbPool client0) Background = Inr 10
   \<and> BeginTx_res world_rollback_fails (emit (EvAcquire (dbPool client0) Background) state0) 10
       Background ''serializable'' = Inr 20
   \<and> trace (snd (InTx world_rollback_fails client0 Background ''serializable'' unit_failing
        state0)) =
       [EvAcquire 1 Background, EvBeginTx 10 Background ''serializable'',
        EvRollback 20 (contextWithTx Background (Some 20)), EvRelease 10]
   \<and> releases (trace (snd (InTx world_rollback_fails client0 Background ''serializable''
        unit_failing state0))) = 1"
proof -
  have a1: "Acquire_res world_acquire_fails state0 (dbPool client0) Background
              = Inl (ErrorString ''closed pool'')"
    by (simp add: world_acquire_fails_def world_ok_def no_conn_def)
  have a2: "Acquire_res world_begin_fails state0 (dbPool client0) Background = Inr 10"
    by (simp add: world_begin_fails_def world_ok_def)
  have b2: "BeginTx_res world_begin_fails (emit (EvAcquire (dbPool client0) Background) state0)
              10 Background ''serializable'' = Inl (ErrorString ''conn busy'')"
    by (simp add: world_begin_fails_def world_ok_def no_tx_def)
  have a3: "Acquire_res world_rollback_fails state0 (dbPool client0) Background = Inr 10"
    by (simp add: world_rollback_fails_def world_ok_def)
  have b3: "BeginTx_res world_rollback_fails (emit (EvAcquire (dbPool client0) Background) state0)
              10 Background ''serializable'' = Inr 20"
    by (simp add: world_rollback_fails_def world_ok_def)
  have f3: "unit_failing (contextWithTx Background (Some 20))
              (emit (EvBeginTx 10 Background ''serializable'')
                 (emit (EvAcquire (dbPool client0) Background) state0)) =
            (Some (ErrorString ''insert failed''), emit (EvBeginTx 10 Background ''serializable'')
                 (emit (EvAcquire (dbPool client0) Background) state0))"
    by (simp add: unit_failing_def)
  show ?thesis
    using a1 a2 b2 a3 b3 f3
      C4_release_once [where w = world_acquire_fails and s = state0 and c = client0
        and ctx = Background and isoLevel = "''serializable''" and f = unit_ok
        and err = "ErrorString ''closed pool''"]
      C4_release_once [where w = world_begin_fails and s = state0 and c = client0
        and ctx = Background and isoLevel = "''serializable''" and f = unit_ok
        and err = "ErrorString ''conn busy''" and cn = 10]
      C4_release_once [where w = world_rollback_fails and s = state0 and c = client0
        and ctx = Background and isoLevel = "''serializable''" and f = unit_failing
        and cn = 10 and t = 20 and r = "Some (ErrorString ''insert failed'')"
        and ?s3.0 = "emit (EvBeginTx 10 Background ''serializable'')
                 (emit (EvAcquire (dbPool client0) Background) state0)"]
    by (simp add: trace_emit emit_def client0_def state0_def releases_def)
qed

text \<open>
  C9. Called with a context that already carries a transaction, \<open>InTx\<close> does what
  it does with any context: it asks the pool for a connection, begins a transaction on
  that connection at the given isolation level, runs the unit of work under a context
  whose lookup gives the new transaction, and commits or rolls back the new one. The
  ambient transaction appears in no call.
\<close>

theorem C9_nested_call_starts_afresh:
  assumes "txFromContext ctx = Some ambient"
  shows "(Acquire_res w s (dbPool c) ctx = Inl err \<longrightarrow>
            InTx w c ctx isoLevel f s =
              (Some (Errorf_w ''acquiring connection'' err), emit (EvAcquire (dbPool c) ctx) s))
       \<and> (Acquire_res w s (dbPool c) ctx = Inr cn \<longrightarrow>
          BeginTx_res w (emit (EvAcquire (dbPool c) ctx) s) cn ctx isoLevel = Inl err \<longrightarrow>
            InTx w c ctx isoLevel f s =
              (Some (Errorf_w ''starting transaction'' err),
               emit (EvRelease cn)
                 (emit (EvBeginTx cn ctx isoLevel) (emit (EvAcquire (dbPool c) ctx) s))))
       \<and> (Acquire_res w s (dbPool c) ctx = Inr cn \<longrightarrow>
          BeginTx_res w (emit (EvAcquire (dbPool c) ctx) s) cn ctx isoLevel = Inr t \<longrightarrow>
            txFromContext (contextWithTx ctx (Some t)) = Some t
          \<and> InTx w c ctx isoLevel f s =
              (case f (contextWithTx ctx (Some t))
                      (emit (EvBeginTx cn ctx isoLevel) (emit (EvAcquire (dbPool c) ctx) s)) of
                 (Some err, s3) \<Rightarrow>
                   (case Rollback_res w s3 t (contextWithTx ctx (Some t)) of
                      Some err1 \<Rightarrow>
                        Some (WrapError (''rolling back transaction: '' @ Error err1
                                @ '' (original error: '' @ Error err @ '')'') err)
                    | None \<Rightarrow> Some err,
                    emit (EvRelease cn) (emit (EvRollback t (contextWithTx ctx (Some t))) s3))
               | (None, s3) \<Rightarrow>
                   (case Commit_res w s3 t (contextWithTx ctx (Some t)) of
                      Some err \<Rightarrow> Some (Errorf_w ''committing transaction'' err)
                    | None \<Rightarrow> None,
                    emit (EvRelease cn) (emit (EvCommit t (contextWithTx ctx (Some t))) s3))))"
  by (intro conjI impI InTx_acquire_failed InTx_begin_failed InTx_begun
      txFromContext_contextWithTx)

text \<open>
  C9 on a context that carries transaction 7.
\<close>

theorem C9_nested_call_starts_afresh_witness:
  "txFromContext (contextWithTx Background (Some 7)) = Some 7
   \<and> Acquire_res world_ok state0 (dbPool client0) (contextWithTx Background (Some 7)) = Inr 10
   \<and> BeginTx_res world_ok
       (emit (EvAcquire (dbPool client0) (contextWithTx Background (Some 7))) state0) 10
       (contextWithTx Background (Some 7)) ''read committed'' = Inr 20
   \<and> InTx world_ok client0 (contextWithTx Background (Some 7)) ''read committed'' unit_ok state0 =
       (None,
        \<lparr>trace = [EvAcquire 1 (contextWithTx Background (Some 7)),
                  EvBeginTx 10 (contextWithTx Background (Some 7)) ''read committed'',
                  EvCommit 20 (contextWithTx (contextWithTx Background (Some 7)) (Some 20)),
                  EvRelease 10],
         allocated = 0\<rparr>)
   \<and> Acquire_res world_acquire_fails state0 (dbPool client0) (contextWithTx Background (Some 7))
       = Inl (ErrorString ''closed pool'')
   \<and> snd (InTx world_acquire_fails client0 (contextWithTx Background (Some 7)) ''read committed''
        unit_ok state0) =
       \<lparr>trace = [EvAcquire 1 (contextWithTx Background (Some 7))], allocated = 0\<rparr>
   \<and> BeginTx_res world_begin_fails
       (emit (EvAcquire (dbPool client0) (contextWithTx Background (Some 7))) state0) 10
       (contextWithTx Background (Some 7)) ''read committed'' = Inl (ErrorString ''conn busy'')
   \<and> snd (InTx world_begin_fails client0 (contextWithTx Background (Some 7)) ''read committed''
        unit_ok state0) =
       \<lparr>trace = [EvAcquire 1 (contextWithTx Background (Some 7)),
                  EvBeginTx 10 (contextWithTx Background (Some 7)) ''read committed'',
                  EvRelease 10],
         allocated = 0\<rparr>"
proof -
  have amb: "txFromContext (contextWithTx Background (Some 7)) = Some 7"
    by (simp add: txFromContext_def contextWithTx_def)
  have a: "Acquire_res world_ok state0 (dbPool client0) (contextWithTx Background (Some 7))
             = Inr 10"
    by (simp add: world_ok_def)
  have b: "BeginTx_res world_ok
       (emit (EvAcquire (dbPool client0) (contextWithTx Background (Some 7))) state0) 10
       (contextWithTx Background (Some 7)) ''read committed'' = Inr 20"
    by (simp add: world_ok_def)
  have a1: "Acquire_res world_acquire_fails state0 (dbPool client0)
              (contextWithTx Background (Some 7)) = Inl (ErrorString ''closed pool'')"
    by (simp add: world_acquire_fails_def world_ok_def no_conn_def)
  have a2: "Acquire_res world_begin_fails state0 (dbPool client0)
              (contextWithTx Background (Some 7)) = Inr 10"
    by (simp add: world_begin_fails_def world_ok_def)
  have b2: "BeginTx_res world_begin_fails
       (emit (EvAcquire (dbPool client0) (contextWithTx Background (Some 7))) state0) 10
       (contextWithTx Background (Some 7)) ''read committed'' = Inl (ErrorString ''conn busy'')"
    by (simp add: world_begin_fails_def world_ok_def no_tx_def)
  show ?thesis
    using amb a b a1 a2 b2
      C9_nested_call_starts_afresh [OF amb, where w = world_ok and s = state0 and c = client0
        and isoLevel = "''read committed''" and f = unit_ok and cn = 10 and t = 20]
      C9_nested_call_starts_afresh [OF amb, where w = world_acquire_fails and s = state0
        and c = client0 and isoLevel = "''read committed''" and f = unit_ok
        and err = "ErrorString ''closed pool''"]
      C9_nested_call_starts_afresh [OF amb, where w = world_begin_fails and s = state0
        and c = client0 and isoLevel = "''read committed''" and f = unit_ok
        and err = "ErrorString ''conn busy''" and cn = 10]
    by (simp add: unit_ok_def emit_def client0_def state0_def world_ok_def)
qed

section \<open>Not found\<close>

text \<open>
  C5. With \<open>got\<close> and \<open>selected\<close> what scany answers to the call \<open>Get\<close>
  and \<open>Select\<close> make: an error with the not-found condition becomes
  \<open>ErrRecordsNotFound\<close>, any other error is returned as it is, nil stays nil.
  \<open>ErrRecordsNotFound\<close> comes out only in the not-found case (or when scany hands
  over this very value), and it differs from every other error value.
\<close>

theorem C5_records_not_found:
  assumes "ScanGet_res w (s\<lparr>allocated := Suc (allocated s)\<rparr>) (scanApi c)
             (WithTimeout ctx (queryTimeout c) (allocated s))
             (case txFromContext ctx of None \<Rightarrow> OnPool (dbPool c) | Some t \<Rightarrow> OnTx t)
             dst sql args = got"
    and "ScanSelect_res w (s\<lparr>allocated := Suc (allocated s)\<rparr>) (scanApi c)
             (WithTimeout ctx (queryTimeout c) (allocated s))
             (case txFromContext ctx of None \<Rightarrow> OnPool (dbPool c) | Some t \<Rightarrow> OnTx t)
             dst sql args = selected"
  shows "(got = Some err \<longrightarrow> NotFound w err \<longrightarrow>
            fst (Get w c ctx dst sql args s) = Some ErrRecordsNotFound)
       \<and> (got = Some err \<longrightarrow> \<not> NotFound w err \<longrightarrow>
            fst (Get w c ctx dst sql args s) = Some err)
       \<and> (got = None \<longrightarrow> fst (Get w c ctx dst sql args s) = None)
       \<and> (fst (Get w c ctx dst sql args s) = Some ErrRecordsNotFound \<longleftrightarrow>
            (\<exists>e. got = Some e \<and> (NotFound w e \<or> e = ErrRecordsNotFound)))
       \<and> (selected = Some err \<longrightarrow> NotFound w err \<longrightarrow>
            fst (Select w c ctx dst sql args s) = Some ErrRecordsNotFound)
       \<and> (selected = Some err \<longrightarrow> \<not> NotFound w err \<longrightarrow>
            fst (Select w c ctx dst sql args s) = Some err)
       \<and> (selected = None \<longrightarrow> fst (Select w c ctx dst sql args s) = None)
       \<and> (fst (Select w c ctx dst sql args s) = Some ErrRecordsNotFound \<longleftrightarrow>
            (\<exists>e. selected = Some e \<and> (NotFound w e \<or> e = ErrRecordsNotFound)))
       \<and> ErrRecordsNotFound \<noteq> ErrorString msg
       \<and> ErrRecordsNotFound \<noteq> WrapError msg cause
       \<and> ErrRecordsNotFound \<noteq> Errorf_w pfx cause"
proof -
  have g: "fst (Get w c ctx dst sql args s) =
             (case got of None \<Rightarrow> None
              | Some e \<Rightarrow> if NotFound w e then Some ErrRecordsNotFound else Some e)"
    using assms(1)
    by (auto simp add: Get_def context_WithTimeout_def getInTx_def scanApi_Get_def
        txFromContext_WithTimeout split: option.splits)
  have sl: "fst (Select w c ctx dst sql args s) =
             (case selected of None \<Rightarrow> None
              | Some e \<Rightarrow> if NotFound w e then Some ErrRecordsNotFound else Some e)"
    using assms(2)
    by (auto simp add: Select_def context_WithTimeout_def selectInTx_def scanApi_Select_def
        txFromContext_WithTimeout split: option.splits)
  show ?thesis
    unfolding g sl by (auto simp add: Errorf_w_def split: option.splits)
qed

text \<open>
  C5 in worlds where scany finds no row, finds two rows, and succeeds.
\<close>

theorem C5_records_not_found_witness:
  "NotFound world_no_rows (WrapError ''scanning one: no rows in result set'' ErrNoRows)
   \<and> fst (Get world_no_rows client0 Background 0 ''select * from t where id = $1'' [AnyInt 7]
        state0) = Some ErrRecordsNotFound
   \<and> fst (Select world_no_rows client0 Background 0 ''select * from t where id = $1'' [AnyInt 7]
        state0) = Some ErrRecordsNotFound
   \<and> \<not> NotFound world_two_rows (ErrorString ''scany: expected 1 row, got: 2'')
   \<and> fst (Get world_two_rows client0 Background 0 ''select * from t'' [] state0) =
       Some (ErrorString ''scany: expected 1 row, got: 2'')
   \<and> fst (Select world_two_rows client0 Background 0 ''select * from t'' [] state0) =
       Some (ErrorString ''scany: expected 1 row, got: 2'')
   \<and> fst (Get world_ok client0 Background 0 ''select * from t'' [] state0) = None"
  using
    C5_records_not_found [where w = world_no_rows and c = client0 and ctx = Background
      and dst = 0 and sql = "''select * from t where id = $1''" and args = "[AnyInt 7]"
      and s = state0 and err = "WrapError ''scanning one: no rows in result set'' ErrNoRows",
      OF refl refl]
    C5_records_not_found [where w = world_two_rows and c = client0 and ctx = Background
      and dst = 0 and sql = "''select * from t''" and args = "[]"
      and s = state0 and err = "ErrorString ''scany: expected 1 row, got: 2''",
      OF refl refl]
    C5_records_not_found [where w = world_ok and c = client0 and ctx = Background
      and dst = 0 and sql = "''select * from t''" and args = "[]"
      and s = state0, OF refl refl]
  by (simp add: world_no_rows_def world_two_rows_def world_ok_def scan_no_rows_def
      scan_two_rows_def ErrNoRows_def)

section \<open>The timeout envelope\<close>

text \<open>
  C6 as stated fails for \<open>InTx\<close> and \<open>Ping\<close>: called with the background
  context they allocate no timeout context, and every call they make is under a context
  without deadline.
\<close>

theorem C6_counterexample:
  "InTx world_ok client0 Background ''serializable'' unit_ok state0 =
     (None,
      \<lparr>trace = [EvAcquire 1 Background, EvBeginTx 10 Background ''serializable'',
                EvCommit 20 (WithValue Background txCtxKey (AnyTx 20)), EvRelease 10],
       allocated = 0\<rparr>)
   \<and> \<not> time_bounded Background
   \<and> \<not> time_bounded (WithValue Background txCtxKey (AnyTx 20))
   \<and> Ping world_ok client0 Background state0 =
       (None, \<lparr>trace = [EvPing 1 Background], allocated = 0\<rparr>)"
  by (simp add: InTx_def Ping_def pool_Acquire_def conn_BeginTx_def tx_Commit_def
      conn_Release_def pool_Ping_def emit_def world_ok_def client0_def state0_def unit_ok_def
      contextWithTx_def)

text \<open>
  C6, amended. \<open>Get\<close>, \<open>Select\<close>, \<open>Exec\<close>, \<open>Query\<close> and \<open>QueryRow\<close> make
  their call under a \<open>WithTimeout\<close> child of the caller's context with the client's
  \<open>queryTimeout\<close>, and cancel it on return; a client built by \<open>New\<close> has the
  configured \<open>QueryTimeout\<close> when that is positive and 5 seconds otherwise. \<open>InTx\<close>
  and \<open>Ping\<close> add no bound: \<open>InTx\<close> acquires and begins under the caller's context
  and commits or rolls back under that context with the transaction attached, \<open>Ping\<close>
  pings under the caller's context.
\<close>

theorem C6_timeout_envelope:
  "trace (snd (Get w c ctx dst sql args s)) =
     trace s @ [EvScanGet (scanApi c) (WithTimeout ctx (queryTimeout c) (allocated s))
                  (case txFromContext ctx of None \<Rightarrow> OnPool (dbPool c) | Some t \<Rightarrow> OnTx t)
                  dst sql args,
                EvCancel (WithTimeout ctx (queryTimeout c) (allocated s))]
   \<and> trace (snd (Select w c ctx dst sql args s)) =
     trace s @ [EvScanSelect (scanApi c) (WithTimeout ctx (queryTimeout c) (allocated s))
                  (case txFromContext ctx of None \<Rightarrow> OnPool (dbPool c) | Some t \<Rightarrow> OnTx t)
                  dst sql args,
                EvCancel (WithTimeout ctx (queryTimeout c) (allocated s))]
   \<and> trace (snd (Exec w c ctx sql args s)) =
     trace s @ [EvExec (case txFromContext ctx of None \<Rightarrow> OnPool (dbPool c) | Some t \<Rightarrow> OnTx t)
                  (WithTimeout ctx (queryTimeout c) (allocated s)) sql args,
                EvCancel (WithTimeout ctx (queryTimeout c) (allocated s))]
   \<and> trace (snd (Query w c ctx sql args s)) =
     trace s @ [EvQuery (case txFromContext ctx of None \<Rightarrow> OnPool (dbPool c) | Some t \<Rightarrow> OnTx t)
                  (WithTimeout ctx (queryTimeout c) (allocated s)) sql args,
                EvCancel (WithTimeout ctx (queryTimeout c) (allocated s))]
   \<and> trace (snd (QueryRow c ctx sql args s)) =
     trace s @ [EvQueryRow (case txFromContext ctx of None \<Rightarrow> OnPool (dbPool c) | Some t \<Rightarrow> OnTx t)
                  (WithTimeout ctx (queryTimeout c) (allocated s)) sql args,
                EvCancel (WithTimeout ctx (queryTimeout c) (allocated s))]
   \<and> time_bounded (WithTimeout ctx (queryTimeout c) (allocated s))
   \<and> (fst (New w ctx0 cfg s0) = Inr c \<longrightarrow>
        queryTimeout c = (if 0 <s QueryTimeout cfg then QueryTimeout cfg else Second * 5))
   \<and> sint (Second * 5) = 5000000000
   \<and> (Acquire_res w s (dbPool c) ctx = Inl err \<longrightarrow>
        snd (InTx w c ctx isoLevel f s) = emit (EvAcquire (dbPool c) ctx) s)
   \<and> (Acquire_res w s (dbPool c) ctx = Inr cn \<longrightarrow>
      BeginTx_res w (emit (EvAcquire (dbPool c) ctx) s) cn ctx isoLevel = Inl err \<longrightarrow>
        snd (InTx w c ctx isoLevel f s) =
          emit (EvRelease cn) (emit (EvBeginTx cn ctx isoLevel) (emit (EvAcquire (dbPool c) ctx) s)))
   \<and> (Acquire_res w s (dbPool c) ctx = Inr cn \<longrightarrow>
      BeginTx_res w (emit (EvAcquire (dbPool c) ctx) s) cn ctx isoLevel = Inr t \<longrightarrow>
      f (contextWithTx ctx (Some t))
        (emit (EvBeginTx cn ctx isoLevel) (emit (EvAcquire (dbPool c) ctx) s)) = (r, s3) \<longrightarrow>
        snd (InTx w c ctx isoLevel f s) =
          emit (EvRelease cn)
            (emit (if r = None then EvCommit t (contextWithTx ctx (Some t))
                   else EvRollback t (contextWithTx ctx (Some t))) s3))
   \<and> time_bounded (contextWithTx ctx (Some t)) = time_bounded ctx
   \<and> Ping w c ctx s = (Ping_res w s (dbPool c) ctx, emit (EvPing (dbPool c) ctx) s)"
proof (intro conjI impI)
  show "sint (Second * 5) = 5000000000"
    by (simp add: Second_def)
  show "queryTimeout c = (if 0 <s QueryTimeout cfg then QueryTimeout cfg else Second * 5)"
    if "fst (New w ctx0 cfg s0) = Inr c"
    using that by (rule New_queryTimeout)
  show "snd (InTx w c ctx isoLevel f s) = emit (EvAcquire (dbPool c) ctx) s"
    if "Acquire_res w s (dbPool c) ctx = Inl err"
    by (simp add: InTx_acquire_failed [OF that])
  show "snd (InTx w c ctx isoLevel f s) =
          emit (EvRelease cn) (emit (EvBeginTx cn ctx isoLevel) (emit (EvAcquire (dbPool c) ctx) s))"
    if "Acquire_res w s (dbPool c) ctx = Inr cn"
      and "BeginTx_res w (emit (EvAcquire (dbPool c) ctx) s) cn ctx isoLevel = Inl err"
    by (simp add: InTx_begin_failed [OF that])
  show "snd (InTx w c ctx isoLevel f s) =
          emit (EvRelease cn)
            (emit (if r = None then EvCommit t (contextWithTx ctx (Some t))
                   else EvRollback t (contextWithTx ctx (Some t))) s3)"
    if "Acquire_res w s (dbPool c) ctx = Inr cn"
      and "BeginTx_res w (emit (EvAcquire (dbPool c) ctx) s) cn ctx isoLevel = Inr t"
      and "f (contextWithTx ctx (Some t))
        (emit (EvBeginTx cn ctx isoLevel) (emit (EvAcquire (dbPool c) ctx) s)) = (r, s3)"
    using that(3) by (cases r) (simp_all add: InTx_begun [OF that(1) that(2)])
  show "time_bounded (contextWithTx ctx (Some t)) = time_bounded ctx"
    by (rule time_bounded_contextWithTx)
  show "Ping w c ctx s = (Ping_res w s (dbPool c) ctx, emit (EvPing (dbPool c) ctx) s)"
    by (simp add: Ping_def pool_Ping_def)
qed (simp_all add: Get_trace Select_trace Exec_trace Query_trace QueryRow_trace)

text \<open>
  The amended C6 on the client that \<open>New\<close> builds from a configuration without query timeout.
\<close>

theorem C6_timeout_envelope_witness:
  "fst (New world_ok Background config0 state0) = Inr client0
   \<and> queryTimeout client0 = Second * 5
   \<and> trace (snd (Get world_ok client0 Background 0 ''select 1'' [] state0)) =
       [EvScanGet 3 (WithTimeout Background (Second * 5) 0) (OnPool 1) 0 ''select 1'' [],
        EvCancel (WithTimeout Background (Second * 5) 0)]
   \<and> Acquire_res world_acquire_fails state0 (dbPool client0) Background
       = Inl (ErrorString ''closed pool'')
   \<and> snd (InTx world_acquire_fails client0 Background ''serializable'' unit_ok state0) =
       \<lparr>trace = [EvAcquire 1 Background], allocated = 0\<rparr>
   \<and> Acquire_res world_begin_fails state0 (dbPool client0) Background = Inr 10
   \<and> BeginTx_res world_begin_fails (emit (EvAcquire (dbPool client0) Background) state0) 10
       Background ''serializable'' = Inl (ErrorString ''conn busy'')
   \<and> snd (InTx world_begin_fails client0 Background ''serializable'' unit_ok state0) =
       \<lparr>trace = [EvAcquire 1 Background, EvBeginTx 10 Background ''serializable'',
                 EvRelease 10], allocated = 0\<rparr>
   \<and> Acquire_res world_ok state0 (dbPool client0) Background = Inr 10
   \<and> BeginTx_res world_ok (emit (EvAcquire (dbPool client0) Background) state0) 10
       Background ''serializable'' = Inr 20
   \<and> snd (InTx world_ok client0 Background ''serializable'' unit_ok state0) =
       \<lparr>trace = [EvAcquire 1 Background, EvBeginTx 10 Background ''serializable'',
                 EvCommit 20 (contextWithTx Background (Some 20)), EvRelease 10],
        allocated = 0\<rparr>"
proof -
  have n: "fst (New world_ok Background config0 state0) = Inr client0"
    by (simp add: New_def Let_def dbDSN_config0 pgxpool_NewWithConfig_def pool_Ping_def
        world_ok_def client0_def config0_def)
  have a1: "Acquire_res world_acquire_fails state0 (dbPool client0) Background
              = Inl (ErrorString ''closed pool'')"
    by (simp add: world_acquire_fails_def world_ok_def no_conn_def)
  have a2: "Acquire_res world_begin_fails state0 (dbPool client0) Background = Inr 10"
    by (simp add: world_begin_fails_def world_ok_def)
  have b2: "BeginTx_res world_begin_fails (emit (EvAcquire (dbPool client0) Background) state0)
              10 Background ''serializable'' = Inl (ErrorString ''conn busy'')"
    by (simp add: world_begin_fails_def world_ok_def no_tx_def)
  have a3: "Acquire_res world_ok state0 (dbPool client0) Background = Inr 10"
    by (simp add: world_ok_def)
  have b3: "BeginTx_res world_ok (emit (EvAcquire (dbPool client0) Background) state0) 10
             Background ''serializable'' = Inr 20"
    by (simp add: world_ok_def)
  have f3: "unit_ok (contextWithTx Background (Some 20))
              (emit (EvBeginTx 10 Background ''serializable'')
                 (emit (EvAcquire (dbPool client0) Background) state0)) =
            (None, emit (EvBeginTx 10 Background ''serializable'')
                 (emit (EvAcquire (dbPool client0) Background) state0))"
    by (simp add: unit_ok_def)
  show ?thesis
    using n a1 a2 b2 a3 b3 f3
      C6_timeout_envelope [where w = world_ok and c = client0 and ctx = Background
        and dst = 0 and sql = "''select 1''" and args = "[]" and s = state0
        and ?ctx0.0 = Background and cfg = config0 and ?s0.0 = state0
        and isoLevel = "''serializable''" and f = unit_ok and cn = 10 and t = 20
        and r = None
        and ?s3.0 = "emit (EvBeginTx 10 Background ''serializable'')
                 (emit (EvAcquire (dbPool client0) Background) state0)"]
      C6_timeout_envelope [where w = world_acquire_fails and c = client0 and ctx = Background
        and s = state0 and isoLevel = "''serializable''" and f = unit_ok
        and err = "ErrorString ''closed pool''"]
      C6_timeout_envelope [where w = world_begin_fails and c = client0 and ctx = Background
        and s = state0 and isoLevel = "''serializable''" and f = unit_ok
        and err = "ErrorString ''conn busy''" and cn = 10]
    by (simp add: emit_def client0_def state0_def txFromContext_def)
qed

text \<open>
  C10. \<open>Query\<close> and \<open>QueryRow\<close> return a cursor and a row accessor made under
  the derived timeout context, and the last thing they do is cancel that context: it is
  done when the method returns and in every later state, so the first read from the
  cursor or the accessor gives the cancellation error, whatever rows the statement
  matched.
\<close>

theorem C10_cursor_outlives_its_context:
  assumes "prefix (trace (snd (Query w c ctx sql args s))) (trace later)"
    and "prefix (trace (snd (QueryRow c ctx sql args s))) (trace later')"
  shows "(\<exists>q. fst (fst (Query w c ctx sql args s)) =
               Rows q (WithTimeout ctx (queryTimeout c) (allocated s)) sql args)
       \<and> last (trace (snd (Query w c ctx sql args s))) =
           EvCancel (WithTimeout ctx (queryTimeout c) (allocated s))
       \<and> Done (trace (snd (Query w c ctx sql args s)))
           (WithTimeout ctx (queryTimeout c) (allocated s))
       \<and> Rows_Next w (fst (fst (Query w c ctx sql args s))) later = Inl Canceled
       \<and> (\<exists>q. fst (QueryRow c ctx sql args s) =
               Row q (WithTimeout ctx (queryTimeout c) (allocated s)) sql args)
       \<and> last (trace (snd (QueryRow c ctx sql args s))) =
           EvCancel (WithTimeout ctx (queryTimeout c) (allocated s))
       \<and> Done (trace (snd (QueryRow c ctx sql args s)))
           (WithTimeout ctx (queryTimeout c) (allocated s))
       \<and> Row_Scan w (fst (QueryRow c ctx sql args s)) later' = Inl Canceled"
proof -
  let ?ctxT = "WithTimeout ctx (queryTimeout c) (allocated s)"
  have d1: "Done (trace (snd (Query w c ctx sql args s))) ?ctxT"
    by (simp add: Query_result trace_emit)
  have d2: "Done (trace (snd (QueryRow c ctx sql args s))) ?ctxT"
    by (simp add: QueryRow_result trace_emit)
  have l1: "Done (trace later) ?ctxT"
    by (rule Done_prefix [OF d1 assms(1)])
  have l2: "Done (trace later') ?ctxT"
    by (rule Done_prefix [OF d2 assms(2)])
  show ?thesis
    using d1 d2 l1 l2 by (simp add: Query_result QueryRow_result trace_emit)
qed

text \<open>
  C10 on a query that succeeds in a world whose statement matches a row.
\<close>

theorem C10_cursor_outlives_its_context_witness:
  "prefix (trace (snd (Query world_ok client0 Background ''select 1'' [] state0)))
     (trace (snd (Query world_ok client0 Background ''select 1'' [] state0)))
   \<and> prefix (trace (snd (QueryRow client0 Background ''select 1'' [] state0)))
     (trace (snd (QueryRow client0 Background ''select 1'' [] state0)))
   \<and> fst (Query world_ok client0 Background ''select 1'' [] state0) =
       (Rows (OnPool 1) (WithTimeout Background (Second * 5) 0) ''select 1'' [], None)
   \<and> Fetch_res world_ok (snd (Query world_ok client0 Background ''select 1'' [] state0))
       (OnPool 1) ''select 1'' [] = Inr [AnyInt 1]
   \<and> Rows_Next world_ok (fst (fst (Query world_ok client0 Background ''select 1'' [] state0)))
       (snd (Query world_ok client0 Background ''select 1'' [] state0)) = Inl Canceled
   \<and> Row_Scan world_ok (fst (QueryRow client0 Background ''select 1'' [] state0))
       (snd (QueryRow client0 Background ''select 1'' [] state0)) = Inl Canceled"
proof -
  have p1: "prefix (trace (snd (Query world_ok client0 Background ''select 1'' [] state0)))
     (trace (snd (Query world_ok client0 Background ''select 1'' [] state0)))"
    by simp
  have p2: "prefix (trace (snd (QueryRow client0 Background ''select 1'' [] state0)))
     (trace (snd (QueryRow client0 Background ''select 1'' [] state0)))"
    by simp
  have q: "fst (Query world_ok client0 Background ''select 1'' [] state0) =
       (Rows (OnPool 1) (WithTimeout Background (Second * 5) 0) ''select 1'' [], None)"
    by (simp add: Query_result txFromContext_def client0_def state0_def world_ok_def)
  have fr: "Fetch_res world_ok (snd (Query world_ok client0 Background ''select 1'' [] state0))
       (OnPool 1) ''select 1'' [] = Inr [AnyInt 1]"
    by (simp add: world_ok_def)
  show ?thesis
    using q fr C10_cursor_outlives_its_context [OF p1 p2]
    by (simp add: client0_def state0_def)
qed

section \<open>Validation\<close>

text \<open>
  C7 as stated fails for \<open>New\<close>: with an empty password, which \<open>Valid\<close> rejects,
  \<open>New\<close> creates the pool, pings it and returns a client.
\<close>

theorem C7_counterexample:
  "Valid config_no_password = Some (ErrorString '''password' was not set'')
   \<and> New world_ok Background config_no_password state0 =
       (Inr \<lparr>dbPool = 1, queryTimeout = Second * 5, scanApi = 3\<rparr>,
        \<lparr>trace = [EvNewWithConfig Background
                    \<lparr>ConnString = ''dbname=app user=svc host=db.local port=5432'',
                     BeforeAcquire = False\<rparr>,
                  EvPing 1 Background],
         allocated = 0\<rparr>)"
  by (simp add: Valid_def config_no_password_def config0_def New_def Let_def dbDSN_def
      dbValues_def setIfNotEmpty_def setIfPositiveDuration_def world_ok_def state0_def
      pgxpool_NewWithConfig_def pool_Ping_def emit_def)

text \<open>
  C7, amended. \<open>Valid\<close> rejects a configuration exactly when host, port, name, user
  or password is empty. \<open>New\<close> does not validate: an empty password is left out of
  the connection string, and whenever parsing, pool creation, ping and the construction
  of the scanning API succeed, \<open>New\<close> creates the pool and returns a client, whatever
  the fields are; when \<open>New\<close> fails, its error is the wrapped error of a
  collaborator.
\<close>

theorem C7_validation_is_the_callers:
  "(Valid cfg \<noteq> None) =
     (Host cfg = [] \<or> Port cfg = [] \<or> Name cfg = [] \<or> User cfg = [] \<or> Password cfg = [])
   \<and> (''password'' \<in> fst ` set (dbValues w cfg)) = (Password cfg \<noteq> [])
   \<and> (ParseConfig_res w (dbDSN w cfg) = None \<longrightarrow>
      NewWithConfig_res w s ctx
        \<lparr>ConnString = dbDSN w cfg, BeforeAcquire = EnableBeforeAcquirePing cfg\<rparr> = Inr pl \<longrightarrow>
      Ping_res w (emit (EvNewWithConfig ctx
        \<lparr>ConnString = dbDSN w cfg, BeforeAcquire = EnableBeforeAcquirePing cfg\<rparr>) s) pl ctx = None \<longrightarrow>
      NewDBScanAPI_res w (AllowUnknownColumns cfg) = Inr dbScan \<longrightarrow>
      NewAPI_res w dbScan = Inr api \<longrightarrow>
        New w ctx cfg s =
          (Inr \<lparr>dbPool = pl,
                queryTimeout = (if 0 <s QueryTimeout cfg then QueryTimeout cfg else Second * 5),
                scanApi = api\<rparr>,
           emit (EvPing pl ctx) (emit (EvNewWithConfig ctx
             \<lparr>ConnString = dbDSN w cfg, BeforeAcquire = EnableBeforeAcquirePing cfg\<rparr>) s)))
   \<and> (fst (New w ctx cfg s) = Inl err \<longrightarrow> (\<exists>msg cause. err = WrapError msg cause))"
  by (intro conjI impI Valid_iff password_key New_success New_failure_is_wrapped)

text \<open>
  The amended C7 on a full configuration and on one without password.
\<close>

theorem C7_validation_is_the_callers_witness:
  "Valid config0 = None
   \<and> Valid config_no_password \<noteq> None
   \<and> Password config_no_password = []
   \<and> ''password'' \<notin> fst ` set (dbValues world_ok config_no_password)
   \<and> ParseConfig_res world_ok (dbDSN world_ok config_no_password) = None
   \<and> New world_ok Background config_no_password state0 =
       (Inr \<lparr>dbPool = 1, queryTimeout = Second * 5, scanApi = 3\<rparr>,
        \<lparr>trace = [EvNewWithConfig Background
                    \<lparr>ConnString = ''dbname=app user=svc host=db.local port=5432'',
                     BeforeAcquire = False\<rparr>,
                  EvPing 1 Background],
         allocated = 0\<rparr>)
   \<and> fst (New world_ping_fails Background config0 state0) =
       Inl (WrapError ''ping to database connection: conn closed'' (ErrorString ''conn closed''))"
proof -
  have v: "Valid config0 = None"
    by (simp add: Valid_def config0_def)
  have pw: "Password config_no_password = []"
    by (simp add: config_no_password_def)
  have p: "ParseConfig_res world_ok (dbDSN world_ok config_no_password) = None"
    by (simp add: world_ok_def)
  have n: "NewWithConfig_res world_ok state0 Background
        \<lparr>ConnString = dbDSN world_ok config_no_password,
         BeforeAcquire = EnableBeforeAcquirePing config_no_password\<rparr> = Inr 1"
    by (simp add: world_ok_def)
  have g: "Ping_res world_ok (emit (EvNewWithConfig Background
        \<lparr>ConnString = dbDSN world_ok config_no_password,
         BeforeAcquire = EnableBeforeAcquirePing config_no_password\<rparr>) state0) 1 Background = None"
    by (simp add: world_ok_def)
  have d: "NewDBScanAPI_res world_ok (AllowUnknownColumns config_no_password) = Inr 2"
    by (simp add: world_ok_def)
  have a: "NewAPI_res world_ok 2 = Inr 3"
    by (simp add: world_ok_def)
  have fl: "fst (New world_ping_fails Background config0 state0) =
       Inl (WrapError ''ping to database connection: conn closed'' (ErrorString ''conn closed''))"
    by (simp add: New_def Let_def dbDSN_config0 pgxpool_NewWithConfig_def pool_Ping_def
        world_ok_def world_ping_fails_def fails_always_def Errorf_w_def config0_def)
  have qt: "QueryTimeout config_no_password = 0"
    by (simp add: config_no_password_def config0_def)
  have eb: "EnableBeforeAcquirePing config_no_password = False"
    by (simp add: config_no_password_def config0_def)
  show ?thesis
    using v pw p n g d a fl
      C7_validation_is_the_callers [where cfg = config0 and w = world_ping_fails
        and ctx = Background and s = state0
        and err = "WrapError ''ping to database connection: conn closed''
                     (ErrorString ''conn closed'')"]
      C7_validation_is_the_callers [where cfg = config_no_password and w = world_ok
        and ctx = Background and s = state0 and pl = 1 and dbScan = 2 and api = 3]
    by (simp add: dbDSN_config_no_password emit_def state0_def qt eb)
qed

end
